theory Spec2Isabelle
  imports Main
begin

section \<open>JavaScript strings\<close>

text \<open>
  A JavaScript string is a sequence of UTF-16 code units, and \<open>length\<close> counts code
  units. The literals of the source that are not ASCII are written out as their code
  units; \<open>js\<close> embeds an ASCII literal.
\<close>

type_synonym jsstring = "nat list"

definition js :: "string \<Rightarrow> jsstring" where
  "js s = map of_char s"

text \<open>\<^verbatim>\<open>s.startsWith(t)\<close>: \<open>t\<close> is a prefix of \<open>s\<close>.\<close>

fun startsWith :: "jsstring \<Rightarrow> jsstring \<Rightarrow> bool" where
  "startsWith s [] = True"
| "startsWith [] (c # t) = False"
| "startsWith (d # s) (c # t) = (d = c \<and> startsWith s t)"

text \<open>\<^verbatim>\<open>s.includes(t)\<close>: \<open>t\<close> occurs in \<open>s\<close> at some position.\<close>

fun includes_js :: "jsstring \<Rightarrow> jsstring \<Rightarrow> bool" where
  "includes_js [] t = (t = [])"
| "includes_js (d # s) t = (startsWith (d # s) t \<or> includes_js s t)"

section \<open>The engine (GeoAIGameMaster)\<close>

subsection \<open>Fixed texts\<close>

definition CORRECT_TAG :: jsstring where
  "CORRECT_TAG = js ''[CORRECT]''"

definition WRONG_TAG :: jsstring where
  "WRONG_TAG = js ''[WRONG]''"

text \<open>The answer of \<open>evaluateAnswer\<close> when there is neither a cloud nor an edge session.\<close>

definition CONNECTION_LOST :: jsstring where
  "CONNECTION_LOST = js ''[WRONG] [AXIOM] '' @ [0x795E, 0x7D4C, 0x30EA, 0x30F3, 0x30AF,
     0x5207, 0x65AD, 0x3002, 0x518D, 0x63A5, 0x7D9A, 0x3092, 0x8A66, 0x307F, 0x3088, 0x3002]"

text \<open>The answer of \<open>evaluateAnswer\<close> after the second cloud attempt.\<close>

definition UNSTABLE :: jsstring where
  "UNSTABLE = js ''[WRONG] [AXIOM] '' @ [0x30C7, 0x30FC, 0x30BF, 0x30B9, 0x30C8, 0x30EA,
     0x30FC, 0x30E0, 0x4E0D, 0x5B89, 0x5B9A, 0x3002, 0x56DE, 0x7B54, 0x3092, 0x518D, 0x9001,
     0x4FE1, 0x305B, 0x3088, 0x3002]"

definition HINT_OFFLINE :: jsstring where
  "HINT_OFFLINE = js ''[HINT] '' @ [0x30B7, 0x30B9, 0x30C6, 0x30E0, 0x30AA, 0x30D5, 0x30E9,
     0x30A4, 0x30F3, 0x3002]"

definition HINT_FAILED :: jsstring where
  "HINT_FAILED = js ''[HINT] '' @ [0x30D2, 0x30F3, 0x30C8, 0x306E, 0x30ED, 0x30FC, 0x30C9,
     0x306B, 0x5931, 0x6557, 0x3057, 0x307E, 0x3057, 0x305F] @ js ''...''"

definition ENDING_FALLBACK :: jsstring where
  "ENDING_FALLBACK = [0x90FD, 0x5E02, 0x306E, 0x30C7, 0x30FC, 0x30BF, 0x30CD, 0x30C3, 0x30C8,
     0x30EF, 0x30FC, 0x30AF, 0x304B, 0x3089, 0x89E3, 0x653E, 0x3055, 0x308C, 0x305F, 0x3002,
     0x3042, 0x306A, 0x305F, 0x306E, 0x8131, 0x51FA, 0x306F, 0x5B8C, 0x4E86, 0x3057, 0x305F,
     0x3002]"

text \<open>
  The template of the narration fallback:
  \<^verbatim>\<open>`[AXIOM] ${fromStage.name}<NARRATION_MID>${toStage.name}<NARRATION_END>`\<close>.
\<close>

definition NARRATION_MID :: jsstring where
  "NARRATION_MID = [0x30BB, 0x30AF, 0x30BF, 0x30FC, 0x306E, 0x7A81, 0x7834, 0x3092, 0x78BA,
     0x8A8D, 0x3002, 0x6B21, 0x306E, 0x5EA7, 0x6A19, 0x3078, 0x8EE2, 0x9001, 0x4E2D]
     @ js ''... ''"

definition NARRATION_END :: jsstring where
  "NARRATION_END = [0x30A8, 0x30EA, 0x30A2, 0x306B, 0x63A5, 0x8FD1, 0x3002]"

text \<open>The table \<open>fallbacks\<close> of \<open>_getFallbackPuzzle\<close>, keys 1 to 5, and the generic text.\<close>

definition FALLBACK_1 :: jsstring where
  "FALLBACK_1 = js ''[PUZZLE] [BABEL-01 '' @ [0x8A8D, 0x8A3C, 0x30D7, 0x30ED, 0x30C8, 0x30B3,
     0x30EB] @ js ''] '' @ [0x3053, 0x306E, 0x30B8, 0x30E3, 0x30DF, 0x30F3, 0x30B0, 0x30BF,
     0x30EF, 0x30FC, 0x306E, 0x5168, 0x9AD8, 0x306F] @ js ''333m'' @ [0x3002, 0x65E7, 0x4E16,
     0x7D00, 0x3001, 0x3053, 0x306E, 0x69CB, 0x9020, 0x7269, 0x306F, 0x4F55, 0x3068, 0x547C,
     0x3070, 0x308C, 0x3066, 0x3044, 0x305F, 0xFF1F, 0x6B63, 0x5F0F, 0x540D, 0x79F0, 0x3092,
     0x30C7, 0x30FC, 0x30BF, 0x30D9, 0x30FC, 0x30B9, 0x304B, 0x3089, 0x691C, 0x7D22, 0x305B,
     0x3088, 0x3002]"

definition FALLBACK_2 :: jsstring where
  "FALLBACK_2 = js ''[PUZZLE] [GINZA-BLOCK '' @ [0x6697, 0x53F7, 0x89E3, 0x8AAD]
     @ js ''] 1932'' @ [0x5E74, 0x7AE3, 0x5DE5, 0x306E, 0x6642, 0x8A08, 0x5854, 0x3092, 0x6301,
     0x3064, 0x30D3, 0x30EB, 0x3002, 0x65E7, 0x540D, 0x300C, 0x670D, 0x90E8, 0x6642, 0x8A08,
     0x5E97, 0x300D, 0x3002, 0x73FE, 0x5728, 0x306E, 0x540D, 0x79F0, 0x3092, 0x7279, 0x5B9A,
     0x305B, 0x3088, 0x3002]"

definition FALLBACK_3 :: jsstring where
  "FALLBACK_3 = js ''[PUZZLE] [SHIBUYA-NEXUS '' @ [0x751F, 0x4F53, 0x8A8D, 0x8A3C] @ js ''] ''
     @ [0x99C5, 0x524D, 0x306B, 0x8A2D, 0x7F6E, 0x3055, 0x308C, 0x305F, 0x72AC, 0x578B, 0x30E2,
     0x30CB, 0x30E5, 0x30E1, 0x30F3, 0x30C8, 0x3002, 0x3053, 0x306E, 0x72AC, 0x7A2E, 0x3092,
     0x56DE, 0x7B54, 0x305B, 0x3088, 0x3002] @ js ''AXIOM'' @ [0x306E, 0x521D, 0x671F, 0x30D7,
     0x30ED, 0x30C8, 0x30BF, 0x30A4, 0x30D7, 0x306E, 0x30B3, 0x30FC, 0x30C9, 0x30CD, 0x30FC,
     0x30E0, 0x3067, 0x3082, 0x3042, 0x308B, 0x3002]"

definition FALLBACK_4 :: jsstring where
  "FALLBACK_4 = js ''[PUZZLE] [AKIBA-GRID '' @ [0x6B74, 0x53F2, 0x7167, 0x5408] @ js ''] ''
     @ [0x3053, 0x306E, 0x96FB, 0x8133, 0x8857, 0x306E, 0x540D, 0x79F0, 0x306E, 0x7531, 0x6765,
     0x3068, 0x306A, 0x3063, 0x305F, 0x795E, 0x793E, 0x304C, 0x3042, 0x308B, 0x3002, 0x706B,
     0x9664, 0x3051, 0x306E, 0x795E, 0x3092, 0x7940, 0x308B, 0x305D, 0x306E, 0x795E, 0x793E,
     0x306E, 0x540D, 0x306F, 0xFF1F]"

definition FALLBACK_5 :: jsstring where
  "FALLBACK_5 = js ''[PUZZLE] [AXIOM-CORE '' @ [0x6700, 0x7D42, 0x8A8D, 0x8A3C] @ js ''] ''
     @ [0x53CC, 0x5B50, 0x306E, 0x795E, 0x6BBF, 0x3001, 0x7B2C, 0x4E00, 0x672C, 0x5E81, 0x820E,
     0x3002, 0x305D, 0x306E, 0x9AD8, 0x3055, 0x3092, 0x6570, 0x5024, 0x3067, 0x56DE, 0x7B54,
     0x305B, 0x3088, 0x3002, 0x5358, 0x4F4D, 0x306F, 0x30E1, 0x30FC, 0x30C8, 0x30EB, 0x3002]"

definition FALLBACK_GENERIC :: jsstring where
  "FALLBACK_GENERIC = js ''[PUZZLE] '' @ [0x5EA7, 0x6A19, 0x3092, 0x7279, 0x5B9A, 0x3057,
     0x3001, 0x56DE, 0x7B54, 0x3092, 0x5165, 0x529B, 0x305B, 0x3088, 0x3002]"

subsection \<open>Stages, engine state, prompts and the outcomes of the AI calls\<close>

text \<open>
  A stage of the static list (\<open>stages.js\<close>), with the fields the engine and the game
  controller read. \<open>id\<close> and \<open>difficulty\<close> are JavaScript numbers.
\<close>

record stage =
  stage_id :: int
  name :: jsstring
  nameEn :: jsstring
  difficulty :: int
  description :: jsstring
  puzzleContext :: jsstring

text \<open>
  The fields of the engine object that its methods read or write. \<open>cloudModel\<close> says
  whether the constructor built a cloud model (it does when an API key is configured);
  \<open>chatSession\<close> and \<open>localAiSession\<close> say whether the field holds a session
  (\<open>False\<close> is \<open>null\<close>). The counters are JavaScript numbers that start at 0 and are
  only incremented or reset, modelled as naturals. The fields \<open>theme\<close>, \<open>language\<close>,
  \<open>customSystemPrompt\<close> and \<open>playerStats\<close> are set by the constructor and read by no
  method.
\<close>

record engine =
  cloudModel :: bool
  hybridMode :: bool
  chatSession :: bool
  localAiSession :: bool
  consecutiveWrong :: nat
  consecutiveCorrect :: nat

text \<open>The state the constructor leaves.\<close>

definition newEngine :: "bool \<Rightarrow> bool \<Rightarrow> engine" where
  "newEngine hasApiKey hybrid =
     \<lparr>cloudModel = hasApiKey, hybridMode = hybrid, chatSession = False,
      localAiSession = False, consecutiveWrong = 0, consecutiveCorrect = 0\<rparr>"

text \<open>The four results of \<open>_getDifficultyModifier\<close>, in the order of its returns.\<close>

datatype difficulty_modifier = MuchEasier | SomewhatEasier | Harder | Neutral

text \<open>The three values of \<open>performance\<close> in \<open>generateNarration\<close>.\<close>

datatype performance = Good | Struggling | Steady

text \<open>
  A prompt is a template literal of the source; the model keeps which template it is and
  the values interpolated into it, in the order they appear.
\<close>

datatype prompt =
    PuzzlePrompt jsstring int jsstring difficulty_modifier
  | PuzzleTagged prompt
  | EdgeEvaluationPrompt jsstring
  | CloudEvaluationPrompt jsstring
  | HintPrompt int
  | NarrationPrompt jsstring jsstring performance nat
  | EndingPrompt nat jsstring nat

text \<open>What a method does to the outside, in order.\<close>

datatype effect = CloudSend prompt | EdgePrompt prompt | Sleep nat

text \<open>
  The response object of the cloud SDK, as \<open>_extractResponseText\<close> reads it: every
  level may be missing (\<open>None\<close>).
\<close>

datatype part = Part (part_text: "jsstring option") (part_thought: bool)

datatype content = Content (parts: "part list option")

datatype candidate = Candidate (content: "content option")

datatype response = Response (candidates: "candidate list option")

text \<open>
  What the awaited \<open>chatSession.sendMessage(prompt)\<close> does: it throws (the promise is
  rejected), or it gives a result whose \<open>response\<close> may be missing.
\<close>

datatype cloud_outcome = CloudThrows | CloudResolves "response option"

text \<open>
  What the awaited \<open>localAiSession.prompt(prompt)\<close> does: it throws, or it gives a
  string.
\<close>

datatype edge_outcome = EdgeThrows | EdgeReturns jsstring

text \<open>
  What \<open>init\<close> finds in the browser: whether \<open>window.ai.languageModel\<close> exists, what
  \<open>capabilities()\<close> reports (\<open>None\<close>: it throws), and whether \<open>create\<close> succeeds.
\<close>

datatype availability = Readily | AfterDownload | NotAvailable

record init_env =
  windowAi :: bool
  capabilities :: "availability option"
  createSucceeds :: bool

subsection \<open>The methods\<close>

definition init :: "init_env \<Rightarrow> engine \<Rightarrow> engine" where
  "init env e0 =
     (let e1 = e0\<lparr>consecutiveWrong := 0, consecutiveCorrect := 0\<rparr>;
          e2 = (if cloudModel e1 then e1\<lparr>chatSession := True\<rparr> else e1)
      in if hybridMode e2 \<and> windowAi env then
           (case capabilities env of
              None \<Rightarrow> e2
            | Some a \<Rightarrow>
                if a = Readily \<or> a = AfterDownload then
                  (if createSucceeds env then e2\<lparr>localAiSession := True\<rparr> else e2)
                else e2)
         else e2)"

text \<open>\<open>p.text\<close> as a condition: a string that is present and not empty.\<close>

definition hasText :: "part \<Rightarrow> bool" where
  "hasText p = (case part_text p of None \<Rightarrow> False | Some t \<Rightarrow> t \<noteq> [])"

definition textOf :: "part \<Rightarrow> jsstring" where
  "textOf p = (case part_text p of None \<Rightarrow> [] | Some t \<Rightarrow> t)"

text \<open>\<^verbatim>\<open>texts.join('\n')\<close>.\<close>

fun joinLines :: "jsstring list \<Rightarrow> jsstring" where
  "joinLines [] = []"
| "joinLines [t] = t"
| "joinLines (t # u # ts) = t @ 10 # joinLines (u # ts)"

definition extractResponseText :: "response option \<Rightarrow> jsstring" where
  "extractResponseText response =
     (case response of
        None \<Rightarrow> []
      | Some r \<Rightarrow>
         (case candidates r of
            None \<Rightarrow> []
          | Some [] \<Rightarrow> []
          | Some (c # _) \<Rightarrow>
             (case content c of
                None \<Rightarrow> []
              | Some ct \<Rightarrow>
                 (case parts ct of
                    None \<Rightarrow> []
                  | Some ps \<Rightarrow>
                     (let textParts = filter (\<lambda>p. hasText p \<and> \<not> part_thought p) ps
                      in if textParts = [] then
                           (case find hasText ps of None \<Rightarrow> [] | Some anyText \<Rightarrow> textOf anyText)
                         else joinLines (map textOf textParts))))))"

definition getDifficultyModifier :: "engine \<Rightarrow> difficulty_modifier" where
  "getDifficultyModifier e =
     (if consecutiveWrong e \<ge> 3 then MuchEasier
      else if consecutiveWrong e \<ge> 2 then SomewhatEasier
      else if consecutiveCorrect e \<ge> 3 then Harder
      else Neutral)"

text \<open>
  \<^verbatim>\<open>fallbacks[stage.id] || '<generic>'\<close>: the table has the keys 1 to 5, each with a
  non-empty text, so the generic text is the result exactly for every other id.
\<close>

definition getFallbackPuzzle :: "stage \<Rightarrow> jsstring" where
  "getFallbackPuzzle st =
     (if stage_id st = 1 then FALLBACK_1
      else if stage_id st = 2 then FALLBACK_2
      else if stage_id st = 3 then FALLBACK_3
      else if stage_id st = 4 then FALLBACK_4
      else if stage_id st = 5 then FALLBACK_5
      else FALLBACK_GENERIC)"

text \<open>
  \<open>this.chatSession.sendMessage(prompt)\<close> inside a \<open>try\<close>: with no session the member
  access throws before anything is sent, otherwise the prompt goes out and the outcome is
  the service's.
\<close>

definition sendMessage :: "engine \<Rightarrow> prompt \<Rightarrow> cloud_outcome \<Rightarrow> cloud_outcome \<times> effect list" where
  "sendMessage e p outcome =
     (if chatSession e then (outcome, [CloudSend p]) else (CloudThrows, []))"

definition generatePuzzle ::
  "stage \<Rightarrow> init_env \<Rightarrow> cloud_outcome \<Rightarrow> edge_outcome \<Rightarrow> engine \<Rightarrow> jsstring \<times> engine \<times> effect list" where
  "generatePuzzle st ienv cloud edge e0 =
     (let e = (if \<not> chatSession e0 then init ienv e0 else e0);
          diffMod = getDifficultyModifier e;
          p = PuzzlePrompt (name st) (difficulty st) (take 500 (puzzleContext st)) diffMod
      in case sendMessage e p cloud of
           (CloudResolves r, fx) \<Rightarrow>
             (let t = extractResponseText r
              in if t = [] \<or> length t < 10 then (getFallbackPuzzle st, e, fx) else (t, e, fx))
         | (CloudThrows, fx) \<Rightarrow>
             if localAiSession e then
               (case edge of
                  EdgeReturns localResponse \<Rightarrow>
                    if localResponse \<noteq> [] \<and> length localResponse > 10
                    then (localResponse, e, fx @ [EdgePrompt (PuzzleTagged p)])
                    else (getFallbackPuzzle st, e, fx @ [EdgePrompt (PuzzleTagged p)])
                | EdgeThrows \<Rightarrow> (getFallbackPuzzle st, e, fx @ [EdgePrompt (PuzzleTagged p)]))
             else (getFallbackPuzzle st, e, fx))"

definition updateDifficultyStats :: "jsstring \<Rightarrow> engine \<Rightarrow> engine" where
  "updateDifficultyStats t e =
     (if includes_js t CORRECT_TAG
      then e\<lparr>consecutiveCorrect := consecutiveCorrect e + 1, consecutiveWrong := 0\<rparr>
      else e\<lparr>consecutiveWrong := consecutiveWrong e + 1, consecutiveCorrect := 0\<rparr>)"

text \<open>
  The loop \<^verbatim>\<open>for (let attempt = 0; attempt < 2; attempt++)\<close> of \<open>evaluateAnswer\<close>, from
  \<open>attempt\<close> on; \<open>cloud n\<close> is the outcome of the call made in attempt \<open>n\<close>. An attempt
  that throws waits 500 ms when it is the first one; after the loop comes the fixed text.
\<close>

function cloudAttempts ::
  "nat \<Rightarrow> prompt \<Rightarrow> (nat \<Rightarrow> cloud_outcome) \<Rightarrow> engine \<Rightarrow> jsstring \<times> engine \<times> effect list" where
  "cloudAttempts attempt p cloud e =
     (if attempt < 2 then
        (case sendMessage e p (cloud attempt) of
           (CloudResolves r, fx) \<Rightarrow>
             (let t = extractResponseText r
              in if t \<noteq> [] \<and> length t > 5 then (t, updateDifficultyStats t e, fx)
                 else (case cloudAttempts (attempt + 1) p cloud e of
                         (res, e', fx') \<Rightarrow> (res, e', fx @ fx')))
         | (CloudThrows, fx) \<Rightarrow>
             (case cloudAttempts (attempt + 1) p cloud e of
                (res, e', fx') \<Rightarrow>
                  (res, e', fx @ (if attempt = 0 then [Sleep 500] else []) @ fx')))
      else (UNSTABLE, e, []))"
  by pat_completeness auto
termination
  by (relation "measure (\<lambda>(attempt, p, cloud, e). 2 - attempt)") auto

declare cloudAttempts.simps [simp del]

text \<open>What the two AI services do during one call of \<open>evaluateAnswer\<close>.\<close>

record eval_env =
  edgeVerdict :: edge_outcome
  cloudVerdict :: "nat \<Rightarrow> cloud_outcome"

definition evaluateAnswer :: "jsstring \<Rightarrow> eval_env \<Rightarrow> engine \<Rightarrow> jsstring \<times> engine \<times> effect list" where
  "evaluateAnswer answer env e =
     (if \<not> chatSession e \<and> \<not> localAiSession e then (CONNECTION_LOST, e, [])
      else
        (let viaCloud = (\<lambda>fx0. case cloudAttempts 0 (CloudEvaluationPrompt answer)
                                     (cloudVerdict env) e of
                                (res, e', fx) \<Rightarrow> (res, e', fx0 @ fx))
         in if localAiSession e then
              (case edgeVerdict env of
                 EdgeReturns r \<Rightarrow>
                   (r, updateDifficultyStats r e, [EdgePrompt (EdgeEvaluationPrompt answer)])
               | EdgeThrows \<Rightarrow> viaCloud [EdgePrompt (EdgeEvaluationPrompt answer)])
            else viaCloud []))"

definition requestHint ::
  "int \<Rightarrow> cloud_outcome \<Rightarrow> edge_outcome \<Rightarrow> engine \<Rightarrow> jsstring \<times> engine \<times> effect list" where
  "requestHint hintLevel cloud edge e =
     (if \<not> chatSession e then (HINT_OFFLINE, e, [])
      else
        (case sendMessage e (HintPrompt hintLevel) cloud of
           (CloudResolves r, fx) \<Rightarrow> (extractResponseText r, e, fx)
         | (CloudThrows, fx) \<Rightarrow>
             if localAiSession e then
               (case edge of
                  EdgeReturns r \<Rightarrow> (r, e, fx @ [EdgePrompt (HintPrompt hintLevel)])
                | EdgeThrows \<Rightarrow> (HINT_FAILED, e, fx @ [EdgePrompt (HintPrompt hintLevel)]))
             else (HINT_FAILED, e, fx)))"

text \<open>
  The argument \<open>playerStats\<close> of \<open>generateNarration\<close>: an object whose \<open>hintsUsed\<close> and
  \<open>elapsedTime\<close> may be missing. The default \<open>{}\<close> has neither.
\<close>

record player_stats =
  statsHintsUsed :: "nat option"
  statsElapsedTime :: "nat option"

definition noStats :: player_stats where
  "noStats = \<lparr>statsHintsUsed = None, statsElapsedTime = None\<rparr>"

text \<open>\<^verbatim>\<open>playerStats.hintsUsed || 0\<close>.\<close>

definition hintsOrZero :: "player_stats \<Rightarrow> nat" where
  "hintsOrZero ps = (case statsHintsUsed ps of None \<Rightarrow> 0 | Some n \<Rightarrow> n)"

definition narrationPrompt :: "stage \<Rightarrow> stage \<Rightarrow> player_stats \<Rightarrow> engine \<Rightarrow> prompt" where
  "narrationPrompt fromStage toStage playerStats e =
     NarrationPrompt (name fromStage) (name toStage)
       (if consecutiveCorrect e \<ge> 2 then Good
        else if consecutiveWrong e \<ge> 2 then Struggling else Steady)
       (hintsOrZero playerStats)"

definition generateNarration ::
  "stage \<Rightarrow> stage \<Rightarrow> player_stats \<Rightarrow> init_env \<Rightarrow> cloud_outcome \<Rightarrow> engine
     \<Rightarrow> jsstring \<times> engine \<times> effect list" where
  "generateNarration fromStage toStage playerStats ienv cloud e0 =
     (let e = (if \<not> chatSession e0 then init ienv e0 else e0);
          p = narrationPrompt fromStage toStage playerStats e
      in case sendMessage e p cloud of
           (CloudResolves r, fx) \<Rightarrow> (extractResponseText r, e, fx)
         | (CloudThrows, fx) \<Rightarrow>
             (js ''[AXIOM] '' @ name fromStage @ NARRATION_MID @ name toStage @ NARRATION_END,
              e, fx))"

definition generateEndingStory ::
  "jsstring \<Rightarrow> nat \<Rightarrow> nat \<Rightarrow> init_env \<Rightarrow> cloud_outcome \<Rightarrow> engine
     \<Rightarrow> jsstring \<times> engine \<times> effect list" where
  "generateEndingStory totalTime hintsUsed stageCount ienv cloud e0 =
     (let e = (if \<not> chatSession e0 then init ienv e0 else e0)
      in case sendMessage e (EndingPrompt stageCount totalTime hintsUsed) cloud of
           (CloudResolves r, fx) \<Rightarrow> (extractResponseText r, e, fx)
         | (CloudThrows, fx) \<Rightarrow> (ENDING_FALLBACK, e, fx))"

text \<open>
  The functions the module exports for the game are arrow functions over the single
  engine instance. They pass their parameters on unchanged, except the one for the
  narration: \<^verbatim>\<open>(from, to) => gameMasterEngine.generateNarration(from, to)\<close> declares two
  parameters, so the third argument of a call is bound to no name and the method runs
  with its default \<open>playerStats = {}\<close>.
\<close>

definition generateNarration_export ::
  "stage \<Rightarrow> stage \<Rightarrow> player_stats \<Rightarrow> init_env \<Rightarrow> cloud_outcome \<Rightarrow> engine
     \<Rightarrow> jsstring \<times> engine \<times> effect list" where
  "generateNarration_export from to extra ienv cloud e =
     generateNarration from to noStats ienv cloud e"

section \<open>The game controller (main.js)\<close>

text \<open>
  The fields of \<open>state\<close> that the handlers below read or write. \<open>elapsedSeconds\<close> is
  \<open>Math.floor\<close> of the time since the timer was started, taken as not negative; the
  other numbers count from 0.
\<close>

record game =
  currentStage :: nat
  hintsUsed :: nat
  hintLevel :: nat
  totalHintsUsed :: nat
  elapsedSeconds :: nat
  isProcessing :: bool
  gameStarted :: bool

text \<open>
  What a handler does to the page, the map and the speech module, in order. The engine's
  own effects are embedded with \<open>EngineDoes\<close>.
\<close>

datatype sound = SoundCorrect | SoundWrong | SoundHint | SoundStage | SoundBoot

datatype message_type = Ai | System | User

datatype transition = SectorUnlocked int | SectorIntro int jsstring | AllSectorsUnlocked

datatype action =
    PlaySound sound
  | AddMessage jsstring message_type
  | AppendAiMessage jsstring
  | SpeakAndWait jsstring
  | Speak jsstring
  | StopSpeaking
  | AddTypingIndicator
  | RemoveTypingIndicator
  | ShowStageTransition transition
  | EngineDoes effect
  | UpdateStageUI int
  | ClearHighlights
  | FlyToLandmark int
  | AddLandmarkMarker int
  | Wait nat
  | StopTimer
  | MinimizeChat
  | StartClearSky
  | AwaitClearSky
  | ShowFinal jsstring nat string
  | ShowEndingStory jsstring
  | ShowEndingScreen
  | ClearInput
  | SetSendDisabled bool

text \<open>
  How the outside answers the calls that one run of a handler makes; a run makes each
  kind of call at most once.
\<close>

record world =
  browser :: init_env
  evaluation :: eval_env
  narrationCloud :: cloud_outcome
  puzzleCloud :: cloud_outcome
  puzzleEdge :: edge_outcome
  endingCloud :: cloud_outcome

text \<open>\<open>String(n)\<close> for a natural number: its decimal digits.\<close>

fun decimal :: "nat \<Rightarrow> jsstring" where
  "decimal n = (if n < 10 then [48 + n] else decimal (n div 10) @ [48 + n mod 10])"

declare decimal.simps [simp del]

text \<open>\<^verbatim>\<open>s.padStart(2, '0')\<close>.\<close>

definition padStart2 :: "jsstring \<Rightarrow> jsstring" where
  "padStart2 t = replicate (2 - length t) 48 @ t"

definition getFormattedTime :: "game \<Rightarrow> jsstring" where
  "getFormattedTime g =
     padStart2 (decimal (elapsedSeconds g div 60)) @ js '':''
       @ padStart2 (decimal (elapsedSeconds g mod 60))"

definition calculateRank :: "game \<Rightarrow> string" where
  "calculateRank g =
     (let time = elapsedSeconds g; hints = totalHintsUsed g
      in if hints = 0 \<and> time < 300 then ''S''
         else if hints \<le> 2 \<and> time < 600 then ''A''
         else if hints \<le> 5 \<and> time < 900 then ''B''
         else if time < 1200 then ''C''
         else ''D'')"

definition loadStage ::
  "stage \<Rightarrow> world \<Rightarrow> game \<times> engine \<Rightarrow> (game \<times> engine) \<times> action list" where
  "loadStage st w ge =
     (case ge of (g, e) \<Rightarrow>
        (case generatePuzzle st (browser w) (puzzleCloud w) (puzzleEdge w) e of
           (puzzleText, e', fx) \<Rightarrow>
             ((g\<lparr>hintLevel := 0\<rparr>, e'),
              [UpdateStageUI (stage_id st), ClearHighlights,
               AddMessage (description st) System, SpeakAndWait (description st),
               FlyToLandmark (stage_id st), AddLandmarkMarker (stage_id st), Wait 3500,
               AddTypingIndicator]
              @ map EngineDoes fx
              @ [RemoveTypingIndicator, AppendAiMessage puzzleText, SpeakAndWait puzzleText])))"

definition endGame ::
  "stage list \<Rightarrow> world \<Rightarrow> game \<times> engine \<Rightarrow> (game \<times> engine) \<times> action list" where
  "endGame stages w ge =
     (case ge of (g, e) \<Rightarrow>
        (let rank = calculateRank g
         in case generateEndingStory (getFormattedTime g) (totalHintsUsed g) (length stages)
                   (browser w) (endingCloud w) e of
              (endingStory, e', fx) \<Rightarrow>
                ((g, e'),
                 [StopTimer, StopSpeaking, ShowStageTransition AllSectorsUnlocked,
                  MinimizeChat, StartClearSky]
                 @ map EngineDoes fx
                 @ [ShowFinal (getFormattedTime g) (totalHintsUsed g) rank,
                    ShowEndingStory endingStory, AwaitClearSky, Speak endingStory,
                    ShowEndingScreen])))"

text \<open>
  \<open>STAGES\<close> is imported from \<open>stages.js\<close> and is a parameter here. After the increment
  \<open>currentStage\<close> is at least 1 and, past the test, less than the length, so both reads
  of the list are in range.
\<close>

definition advanceStage ::
  "stage list \<Rightarrow> world \<Rightarrow> game \<times> engine \<Rightarrow> (game \<times> engine) \<times> action list" where
  "advanceStage stages w ge =
     (case ge of (g0, e) \<Rightarrow>
        (let g = g0\<lparr>currentStage := currentStage g0 + 1\<rparr>
         in if currentStage g \<ge> length stages then endGame stages w (g, e)
            else
              (let prevStage = stages ! (currentStage g - 1);
                   nextStage = stages ! currentStage g
               in case generateNarration_export prevStage nextStage
                         \<lparr>statsHintsUsed = Some (totalHintsUsed g),
                          statsElapsedTime = Some (elapsedSeconds g)\<rparr>
                         (browser w) (narrationCloud w) e of
                    (narration, e', fx) \<Rightarrow>
                      (case loadStage nextStage w (g, e') of
                         (ge', acts) \<Rightarrow>
                           (ge',
                            [StopSpeaking, ShowStageTransition (SectorUnlocked (stage_id prevStage)),
                             AddTypingIndicator]
                            @ map EngineDoes fx
                            @ [RemoveTypingIndicator, AddMessage narration System,
                               SpeakAndWait narration,
                               ShowStageTransition
                                 (SectorIntro (stage_id nextStage) (name nextStage))]
                            @ acts)))))"

text \<open>
  How far a handler has come: it has returned, or it stands at an \<open>await\<close> of a speech
  whose promise has not been resolved.
\<close>

datatype progress = Returned | AwaitingSpeech

text \<open>
  The statements of \<open>onSendAnswer\<close> after \<^verbatim>\<open>const response = await evaluateAnswer(answer)\<close>
  and the removal of the typing indicator: the branch on the response.

  For a correct response the handler plays the sound, shows the text and then awaits
  \<^verbatim>\<open>speakAndWait(response)\<close>; only after that come the system message, the reset of
  \<open>isProcessing\<close> and \<open>advanceStage\<close>. \<open>spoken\<close> says whether that promise is ever
  resolved. The speech module resolves it when the playback ends or fails, and does not
  when \<open>stopSpeaking\<close> (the voice-skip button, the mute toggle) has paused the element.
  With \<open>spoken\<close> false the result is the state and the actions up to the await, where
  the handler stays. For a wrong response nothing is awaited.
\<close>

definition onSendAnswer_response ::
  "stage list \<Rightarrow> world \<Rightarrow> bool \<Rightarrow> jsstring \<Rightarrow> game \<times> engine
     \<Rightarrow> (game \<times> engine) \<times> action list \<times> progress" where
  "onSendAnswer_response stages w spoken response ge =
     (case ge of (g, e) \<Rightarrow>
        if startsWith response CORRECT_TAG \<or> includes_js response CORRECT_TAG then
          (if spoken then
             (case advanceStage stages w (g\<lparr>isProcessing := False\<rparr>, e) of
                (ge', acts) \<Rightarrow>
                  (ge',
                   [PlaySound SoundCorrect, AppendAiMessage response, SpeakAndWait response,
                    AddMessage (js ''ACCESS GRANTED -- SECTOR UNLOCKED'') System,
                    SetSendDisabled False]
                   @ acts,
                   Returned))
           else
             ((g, e),
              [PlaySound SoundCorrect, AppendAiMessage response, SpeakAndWait response],
              AwaitingSpeech))
        else
          ((g\<lparr>isProcessing := False\<rparr>, e),
           [PlaySound SoundWrong, AddMessage response Ai, SetSendDisabled False],
           Returned))"

text \<open>
  JavaScript's white space and line terminators, which \<open>trim\<close> removes at both ends.
\<close>

definition isLineTerminator :: "nat \<Rightarrow> bool" where
  "isLineTerminator c = (c = 0x0A \<or> c = 0x0D \<or> c = 0x2028 \<or> c = 0x2029)"

definition isWhiteSpace :: "nat \<Rightarrow> bool" where
  "isWhiteSpace c =
     (isLineTerminator c \<or> c = 0x09 \<or> c = 0x0B \<or> c = 0x0C \<or> c = 0x20 \<or> c = 0xA0
      \<or> c = 0x1680 \<or> (0x2000 \<le> c \<and> c \<le> 0x200A) \<or> c = 0x202F \<or> c = 0x205F
      \<or> c = 0x3000 \<or> c = 0xFEFF)"

definition trim :: "jsstring \<Rightarrow> jsstring" where
  "trim t = rev (dropWhile isWhiteSpace (rev (dropWhile isWhiteSpace t)))"

text \<open>
  \<open>onSendAnswer\<close>, from the text in the input field. The answer goes to the engine
  through the exported \<open>evaluateAnswer\<close>, which passes it on as it is. \<open>spoken\<close> is
  passed on to the branch on the response.
\<close>

definition onSendAnswer ::
  "stage list \<Rightarrow> world \<Rightarrow> bool \<Rightarrow> jsstring \<Rightarrow> game \<times> engine
     \<Rightarrow> (game \<times> engine) \<times> action list \<times> progress" where
  "onSendAnswer stages w spoken inputValue ge =
     (case ge of (g, e) \<Rightarrow>
        (let answer = trim inputValue
         in if answer = [] \<or> isProcessing g then ((g, e), [], Returned)
            else if answer = js ''/skip'' then
              (case advanceStage stages w (g\<lparr>isProcessing := False\<rparr>, e) of
                 (ge', acts) \<Rightarrow>
                   (ge',
                    [ClearInput, StopSpeaking, RemoveTypingIndicator,
                     AddMessage (js ''DEBUG: STAGE SKIP'') System] @ acts,
                    Returned))
            else if answer = js ''/end'' then
              (case endGame stages w (g\<lparr>isProcessing := False\<rparr>, e) of
                 (ge', acts) \<Rightarrow>
                   (ge',
                    [ClearInput, StopSpeaking, RemoveTypingIndicator,
                     AddMessage (js ''DEBUG: JUMP TO ENDING'') System] @ acts,
                    Returned))
            else
              (case evaluateAnswer answer (evaluation w) e of
                 (response, e', fx) \<Rightarrow>
                   (case onSendAnswer_response stages w spoken response
                           (g\<lparr>isProcessing := True\<rparr>, e') of
                      (ge', acts, pr) \<Rightarrow>
                        (ge',
                         [SetSendDisabled True, ClearInput, AddMessage answer User,
                          AddTypingIndicator]
                         @ map EngineDoes fx @ [RemoveTypingIndicator] @ acts,
                         pr)))))"

section \<open>The speech module (tts.js)\<close>

subsection \<open>Cleaning a text before it is spoken\<close>

text \<open>
  \<open>speak\<close> and \<open>speakAndWait\<close> both compute
  \<^verbatim>\<open>text.replace(/\[.*?\]/g, '').replace(/\*\*/g, '').replace(/<[^>]+>/g, '').replace(/[>]/g, '').trim()\<close>.
  Each replacement scans from the left and removes the matches it finds, without
  overlap.

  \<^verbatim>\<open>/\[.*?\]/\<close> matches from a \<open>[\<close> to the nearest \<open>]\<close> after it, when no line
  terminator lies between them (\<open>.\<close> does not match one).
\<close>

fun closesBracket :: "jsstring \<Rightarrow> bool" where
  "closesBracket [] = False"
| "closesBracket (c # cs) =
     (if c = 0x5D then True else if isLineTerminator c then False else closesBracket cs)"

fun removeBracketed :: "bool \<Rightarrow> jsstring \<Rightarrow> jsstring" where
  "removeBracketed inside [] = []"
| "removeBracketed True (c # cs) =
     (if c = 0x5D then removeBracketed False cs else removeBracketed True cs)"
| "removeBracketed False (c # cs) =
     (if c = 0x5B \<and> closesBracket cs then removeBracketed True cs
      else c # removeBracketed False cs)"

text \<open>\<^verbatim>\<open>/\*\*/\<close>: two asterisks.\<close>

fun removeStars :: "jsstring \<Rightarrow> jsstring" where
  "removeStars (a # b # cs) =
     (if a = 0x2A \<and> b = 0x2A then removeStars cs else a # removeStars (b # cs))"
| "removeStars cs = cs"

text \<open>
  \<^verbatim>\<open>/<[^>]+>/\<close>: a \<open><\<close>, at least one character that is not \<open>>\<close>, and the nearest
  \<open>>\<close> after them.
\<close>

definition opensTag :: "jsstring \<Rightarrow> bool" where
  "opensTag cs = (case cs of [] \<Rightarrow> False | d # ds \<Rightarrow> d \<noteq> 0x3E \<and> 0x3E \<in> set ds)"

fun removeTags :: "bool \<Rightarrow> jsstring \<Rightarrow> jsstring" where
  "removeTags inside [] = []"
| "removeTags True (c # cs) =
     (if c = 0x3E then removeTags False cs else removeTags True cs)"
| "removeTags False (c # cs) =
     (if c = 0x3C \<and> opensTag cs then removeTags True cs else c # removeTags False cs)"

definition clean :: "jsstring \<Rightarrow> jsstring" where
  "clean t =
     trim (filter (\<lambda>c. c \<noteq> 0x3E)
            (removeTags False (removeStars (removeBracketed False t))))"

subsection \<open>State\<close>

text \<open>
  The module runs on one thread. A call of the async function \<open>synthesizeAndPlay\<close>
  runs up to its first \<open>await\<close> and later continues when the awaited promise settles;
  between two such points any other handler may run. The model keeps, next to the
  module's variables, one record for every call of \<open>synthesizeAndPlay\<close> (a task), one
  for every \<open>Audio\<close> element created, and one flag for every promise \<open>speakAndWait\<close>
  has returned. A task, an element or a promise is named by its index in its list.

  A task is awaited either by the loop of \<open>processQueue\<close> or by the \<open>then\<close>/\<open>catch\<close>
  of the \<open>speakAndWait\<close> call that returned the promise with the given index.
\<close>

datatype caller = FromQueue | FromSpeakAndWait nat

datatype phase = AwaitingFetch | AwaitingJson | AwaitingPlayback nat | Settled

record task =
  taskText :: jsstring
  taskCaller :: caller
  taskPhase :: phase

datatype audio_status = Playing | Paused | Finished | Failed

record audio =
  audioText :: jsstring
  audioTask :: nat
  audioStatus :: audio_status

text \<open>
  \<open>apiKey\<close> says whether \<open>TTS_API_KEY\<close> is set; \<open>indicatorSpeaking\<close> is the class
  \<open>speaking\<close> of the element \<open>audio-indicator\<close>, which the page has; \<open>currentAudio\<close>
  and \<open>currentSpeakResolve\<close> hold an index or \<open>null\<close>.
\<close>

record tts =
  apiKey :: bool
  ttsEnabled :: bool
  currentAudio :: "nat option"
  audioQueue :: "jsstring list"
  isPlaying :: bool
  currentSpeakResolve :: "nat option"
  synthesisAborted :: bool
  indicatorSpeaking :: bool
  tasks :: "task list"
  audios :: "audio list"
  promises :: "bool list"

definition ttsLoaded :: "bool \<Rightarrow> tts" where
  "ttsLoaded hasKey =
     \<lparr>apiKey = hasKey, ttsEnabled = True, currentAudio = None, audioQueue = [],
      isPlaying = False, currentSpeakResolve = None, synthesisAborted = False,
      indicatorSpeaking = False, tasks = [], audios = [], promises = []\<rparr>"

subsection \<open>The functions, up to their first await\<close>

text \<open>Calling the \<open>resolve\<close> of promise \<open>p\<close>.\<close>

definition resolvePromise :: "nat \<Rightarrow> tts \<Rightarrow> tts" where
  "resolvePromise p s = s\<lparr>promises := (promises s)[p := True]\<rparr>"

text \<open>\<open>synthesizeAndPlay(text)\<close> clears the abort flag, sends the request and waits.\<close>

definition synthesizeAndPlay :: "jsstring \<Rightarrow> caller \<Rightarrow> tts \<Rightarrow> tts" where
  "synthesizeAndPlay t c s =
     s\<lparr>synthesisAborted := False,
       tasks := tasks s @ [\<lparr>taskText = t, taskCaller = c, taskPhase = AwaitingFetch\<rparr>]\<rparr>"

text \<open>
  The loop of \<open>processQueue\<close> at its test: with a text in the queue it takes the first
  and awaits its synthesis, otherwise it ends and clears \<open>isPlaying\<close>.
\<close>

definition queueLoop :: "tts \<Rightarrow> tts" where
  "queueLoop s =
     (case audioQueue s of
        [] \<Rightarrow> s\<lparr>isPlaying := False\<rparr>
      | t # rest \<Rightarrow> synthesizeAndPlay t FromQueue (s\<lparr>audioQueue := rest\<rparr>))"

definition processQueue :: "tts \<Rightarrow> tts" where
  "processQueue s =
     (if isPlaying s \<or> audioQueue s = [] then s else queueLoop (s\<lparr>isPlaying := True\<rparr>))"

definition stopSpeaking :: "tts \<Rightarrow> tts" where
  "stopSpeaking s0 =
     (let s = s0\<lparr>synthesisAborted := True, audioQueue := [], isPlaying := False\<rparr>;
          s' = (case currentAudio s of
                  None \<Rightarrow> s
                | Some a \<Rightarrow>
                    s\<lparr>audios := (audios s)[a := (audios s ! a)\<lparr>audioStatus :=
                           (if audioStatus (audios s ! a) = Playing then Paused
                            else audioStatus (audios s ! a))\<rparr>],
                      currentAudio := None\<rparr>)
      in s'\<lparr>indicatorSpeaking := False\<rparr>)"

definition speak :: "jsstring \<Rightarrow> tts \<Rightarrow> tts" where
  "speak t s =
     (if \<not> ttsEnabled s \<or> \<not> apiKey s \<or> t = [] then s
      else if clean t = [] \<or> length (clean t) < 3 then s
      else
        (let s' = s\<lparr>synthesisAborted := False, audioQueue := audioQueue s @ [clean t]\<rparr>
         in if \<not> isPlaying s' then processQueue s' else s'))"

text \<open>
  \<open>speakAndWait(text)\<close> returns a new promise, the one with index \<open>length (promises s)\<close>.
\<close>

definition speakAndWait :: "jsstring \<Rightarrow> tts \<Rightarrow> tts" where
  "speakAndWait t s0 =
     (let p = length (promises s0);
          s = s0\<lparr>promises := promises s0 @ [False]\<rparr>
      in if \<not> ttsEnabled s \<or> \<not> apiKey s \<or> t = [] then resolvePromise p s
         else if clean t = [] \<or> length (clean t) < 3 then resolvePromise p s
         else synthesizeAndPlay (clean t) (FromSpeakAndWait p)
                (stopSpeaking (s\<lparr>currentSpeakResolve := Some p\<rparr>)))"

definition skipAndProceed :: "tts \<Rightarrow> tts" where
  "skipAndProceed s0 =
     (let s = stopSpeaking s0
      in case currentSpeakResolve s of
           None \<Rightarrow> s
         | Some p \<Rightarrow> resolvePromise p (s\<lparr>currentSpeakResolve := None\<rparr>))"

definition toggleTTS :: "tts \<Rightarrow> tts" where
  "toggleTTS s0 =
     (let s = s0\<lparr>ttsEnabled := \<not> ttsEnabled s0\<rparr>
      in if \<not> ttsEnabled s then stopSpeaking s else s)"

subsection \<open>Continuations\<close>

text \<open>
  The promise of task \<open>i\<close> settles: \<open>synthesizeAndPlay\<close> has returned, or the promise
  it returned has been resolved. This happens once; then the code that awaits the task
  runs: the loop of \<open>processQueue\<close> goes to its next test, or the \<open>then\<close> of
  \<open>speakAndWait\<close> clears \<open>currentSpeakResolve\<close> and resolves its promise.
\<close>

definition settle :: "nat \<Rightarrow> tts \<Rightarrow> tts" where
  "settle i s =
     (if i < length (tasks s) \<and> taskPhase (tasks s ! i) \<noteq> Settled then
        (let s' = s\<lparr>tasks := (tasks s)[i := (tasks s ! i)\<lparr>taskPhase := Settled\<rparr>]\<rparr>
         in case taskCaller (tasks s ! i) of
              FromQueue \<Rightarrow> queueLoop s'
            | FromSpeakAndWait p \<Rightarrow> resolvePromise p (s'\<lparr>currentSpeakResolve := None\<rparr>))
      else s)"

definition inPhase :: "nat \<Rightarrow> phase \<Rightarrow> tts \<Rightarrow> bool" where
  "inPhase i ph s = (i < length (tasks s) \<and> taskPhase (tasks s ! i) = ph)"

text \<open>
  The end of \<open>synthesizeAndPlay\<close>: a new \<open>Audio\<close> element becomes \<open>currentAudio\<close>, the
  indicator is switched on, \<open>play()\<close> is called and the task waits for the element.
\<close>

definition startPlayback :: "nat \<Rightarrow> tts \<Rightarrow> tts" where
  "startPlayback i s =
     (let a = length (audios s)
      in s\<lparr>audios := audios s @
               [\<lparr>audioText = taskText (tasks s ! i), audioTask = i, audioStatus = Playing\<rparr>],
           currentAudio := Some a,
           indicatorSpeaking := True,
           tasks := (tasks s)[i := (tasks s ! i)\<lparr>taskPhase := AwaitingPlayback a\<rparr>]\<rparr>)"

definition setAudioStatus :: "nat \<Rightarrow> audio_status \<Rightarrow> tts \<Rightarrow> tts" where
  "setAudioStatus a st s = s\<lparr>audios := (audios s)[a := (audios s ! a)\<lparr>audioStatus := st\<rparr>]\<rparr>"

subsection \<open>Events\<close>

text \<open>
  What can happen next: a call of an exported function, or the settling of something a
  task waits for. \<open>FetchResolved i ok\<close> is the response of task \<open>i\<close>'s request with
  its \<open>ok\<close>; the body that \<open>response.json()\<close> gives has no \<open>audioContent\<close>, one that
  \<open>atob\<close> rejects, or audio. The last three are the \<open>ended\<close> and \<open>error\<close> events of
  an element and the rejection of its \<open>play()\<close>.
\<close>

datatype audio_content = NoAudioContent | InvalidBase64 | AudioContent

datatype event =
    CallSpeak jsstring
  | CallSpeakAndWait jsstring
  | CallStopSpeaking
  | CallSkipAndProceed
  | CallToggleTTS
  | FetchResolved nat bool
  | FetchRejected nat
  | JsonResolved nat audio_content
  | JsonRejected nat
  | AudioEnded nat
  | AudioError nat
  | PlayRejected nat

text \<open>
  One event, with everything that runs before the thread is idle again. The abort flag
  is read after the response and after the body; the third test of the source comes
  with no await after the second, so it reads the same value. An exception inside the
  \<open>try\<close> (a rejected request or body, \<open>atob\<close>) ends in the \<open>catch\<close>, which switches
  the indicator off and lets the function return.
\<close>

fun step :: "event \<Rightarrow> tts \<Rightarrow> tts" where
  "step (CallSpeak t) s = speak t s"
| "step (CallSpeakAndWait t) s = speakAndWait t s"
| "step CallStopSpeaking s = stopSpeaking s"
| "step CallSkipAndProceed s = skipAndProceed s"
| "step CallToggleTTS s = toggleTTS s"
| "step (FetchResolved i ok) s =
     (if inPhase i AwaitingFetch s then
        (if synthesisAborted s then settle i s
         else if \<not> ok then settle i s
         else s\<lparr>tasks := (tasks s)[i := (tasks s ! i)\<lparr>taskPhase := AwaitingJson\<rparr>]\<rparr>)
      else s)"
| "step (FetchRejected i) s =
     (if inPhase i AwaitingFetch s then settle i (s\<lparr>indicatorSpeaking := False\<rparr>) else s)"
| "step (JsonResolved i body) s =
     (if inPhase i AwaitingJson s then
        (if body = NoAudioContent \<or> synthesisAborted s then settle i s
         else if body = InvalidBase64 then settle i (s\<lparr>indicatorSpeaking := False\<rparr>)
         else startPlayback i s)
      else s)"
| "step (JsonRejected i) s =
     (if inPhase i AwaitingJson s then settle i (s\<lparr>indicatorSpeaking := False\<rparr>) else s)"
| "step (AudioEnded a) s =
     (if a < length (audios s) then
        settle (audioTask (audios s ! a))
          (setAudioStatus a Finished (s\<lparr>indicatorSpeaking := False, currentAudio := None\<rparr>))
      else s)"
| "step (AudioError a) s =
     (if a < length (audios s) then
        settle (audioTask (audios s ! a))
          (setAudioStatus a Failed (s\<lparr>indicatorSpeaking := False, currentAudio := None\<rparr>))
      else s)"
| "step (PlayRejected a) s =
     (if a < length (audios s) then
        settle (audioTask (audios s ! a))
          (setAudioStatus a Failed (s\<lparr>indicatorSpeaking := False\<rparr>))
      else s)"

fun run :: "event list \<Rightarrow> tts \<Rightarrow> tts" where
  "run [] s = s"
| "run (ev # evs) s = run evs (step ev s)"

section \<open>Notions used to state the properties\<close>

text \<open>
  One cloud attempt of \<open>evaluateAnswer\<close>, as the loop sees it: the call threw, or it
  gave a text that is empty or has at most 5 code units, or it gave a verdict.
\<close>

datatype attempt = Threw | TooShort | Verdict jsstring

definition classifyAttempt :: "cloud_outcome \<Rightarrow> attempt" where
  "classifyAttempt outcome =
     (case outcome of
        CloudThrows \<Rightarrow> Threw
      | CloudResolves r \<Rightarrow>
          (let t = extractResponseText r
           in if t \<noteq> [] \<and> length t > 5 then Verdict t else TooShort))"

definition noVerdict :: "cloud_outcome \<Rightarrow> bool" where
  "noVerdict outcome = (case classifyAttempt outcome of Verdict t \<Rightarrow> False | _ \<Rightarrow> True)"

text \<open>A sequence of calls of \<open>evaluateAnswer\<close>, each with its answer and its outcomes.\<close>

fun evaluateAll :: "(jsstring \<times> eval_env) list \<Rightarrow> engine \<Rightarrow> engine" where
  "evaluateAll [] e = e"
| "evaluateAll ((answer, env) # calls) e =
     evaluateAll calls (fst (snd (evaluateAnswer answer env e)))"

definition countersExclusive :: "engine \<Rightarrow> bool" where
  "countersExclusive e = (consecutiveCorrect e = 0 \<or> consecutiveWrong e = 0)"

text \<open>
  Promise \<open>p\<close> of \<open>speakAndWait\<close> has been resolved; task \<open>i\<close> is the synthesis that
  the \<open>speakAndWait\<close> call of promise \<open>p\<close> awaits, it has not settled, and when it waits
  for an element, that element is its own.
\<close>

definition resolved :: "nat \<Rightarrow> tts \<Rightarrow> bool" where
  "resolved p s = (p < length (promises s) \<and> promises s ! p)"

definition pendingFor :: "nat \<Rightarrow> nat \<Rightarrow> tts \<Rightarrow> bool" where
  "pendingFor i p s =
     (i < length (tasks s) \<and> taskCaller (tasks s ! i) = FromSpeakAndWait p
      \<and> taskPhase (tasks s ! i) \<noteq> Settled \<and> p < length (promises s)
      \<and> (case taskPhase (tasks s ! i) of
            AwaitingPlayback a \<Rightarrow> a < length (audios s) \<and> audioTask (audios s ! a) = i
          | _ \<Rightarrow> True))"

text \<open>
  The ways the step a task is waiting for can fail: the request is rejected or answered
  with a status that is not ok; the body cannot be read, has no audio or has audio that
  cannot be decoded; the element reports an error or refuses to play.
\<close>

fun failures :: "nat \<Rightarrow> phase \<Rightarrow> event list" where
  "failures i AwaitingFetch = [FetchRejected i, FetchResolved i False]"
| "failures i AwaitingJson = [JsonRejected i, JsonResolved i NoAudioContent, JsonResolved i InvalidBase64]"
| "failures i (AwaitingPlayback a) = [AudioError a, PlayRejected a]"
| "failures i Settled = []"

text \<open>
  Two relations between a state and a later one: no promise is lost or un-resolved; and,
  beyond that, task \<open>i\<close> is as it was and every element still belongs to its task.
\<close>

definition promisesKept :: "tts \<Rightarrow> tts \<Rightarrow> bool" where
  "promisesKept s s' =
     (length (promises s) \<le> length (promises s')
      \<and> (\<forall>p < length (promises s). promises s ! p \<longrightarrow> promises s' ! p))"

definition taskKept :: "nat \<Rightarrow> tts \<Rightarrow> tts \<Rightarrow> bool" where
  "taskKept i s s' =
     (promisesKept s s'
      \<and> length (tasks s) \<le> length (tasks s')
      \<and> (i < length (tasks s) \<longrightarrow> tasks s' ! i = tasks s ! i)
      \<and> length (audios s) \<le> length (audios s')
      \<and> (\<forall>a < length (audios s). audioTask (audios s' ! a) = audioTask (audios s ! a)))"

subsection \<open>Concrete inputs\<close>

definition demoBrowser :: init_env where
  "demoBrowser = \<lparr>windowAi = False, capabilities = None, createSucceeds = False\<rparr>"

definition demoEngine :: engine where
  "demoEngine = init demoBrowser (newEngine True True)"

definition edgeEngine :: engine where
  "edgeEngine =
     init \<lparr>windowAi = True, capabilities = Some Readily, createSucceeds = True\<rparr>
       (newEngine False True)"

definition correctResponse :: "response option" where
  "correctResponse =
     Some (Response (Some [Candidate (Some (Content (Some
       [Part (Some (js ''[CORRECT] Access granted.'')) False])))]))"

text \<open>A response of the cloud model with no candidate, and so with no text.\<close>

definition emptyResponse :: "response option" where
  "emptyResponse = Some (Response (Some []))"

definition allFail :: eval_env where
  "allFail = \<lparr>edgeVerdict = EdgeThrows, cloudVerdict = (\<lambda>n. CloudThrows)\<rparr>"

definition shortThenFail :: eval_env where
  "shortThenFail =
     \<lparr>edgeVerdict = EdgeThrows,
      cloudVerdict = (\<lambda>n. if n = 0 then CloudResolves emptyResponse else CloudThrows)\<rparr>"

definition cloudCorrect :: eval_env where
  "cloudCorrect = \<lparr>edgeVerdict = EdgeThrows, cloudVerdict = (\<lambda>n. CloudResolves correctResponse)\<rparr>"

definition edgeEmpty :: eval_env where
  "edgeEmpty = \<lparr>edgeVerdict = EdgeReturns [], cloudVerdict = (\<lambda>n. CloudThrows)\<rparr>"

definition demoStage1 :: stage where
  "demoStage1 =
     \<lparr>stage_id = 1, name = js ''Tower'', nameEn = js ''Tower'', difficulty = 1,
      description = js ''Sector one.'', puzzleContext = js ''A tower of 333 m.''\<rparr>"

definition demoStage2 :: stage where
  "demoStage2 =
     \<lparr>stage_id = 2, name = js ''Ginza'', nameEn = js ''Ginza'', difficulty = 2,
      description = js ''Sector two.'', puzzleContext = js ''A clock tower of 1932.''\<rparr>"

definition demoWorld :: world where
  "demoWorld =
     \<lparr>browser = demoBrowser, evaluation = allFail, narrationCloud = CloudThrows,
      puzzleCloud = CloudThrows, puzzleEdge = EdgeThrows, endingCloud = CloudThrows\<rparr>"

definition demoGame :: game where
  "demoGame =
     \<lparr>currentStage = 0, hintsUsed = 0, hintLevel = 0, totalHintsUsed = 3,
      elapsedSeconds = 120, isProcessing = True, gameStarted = True\<rparr>"

text \<open>
  A speech with a completion promise that is being played when \<open>stopSpeaking\<close> is
  called.
\<close>

definition stoppedWhilePlaying :: "event list" where
  "stoppedWhilePlaying =
     [CallSpeakAndWait (js ''first speech''), FetchResolved 0 True,
      JsonResolved 0 AudioContent, CallStopSpeaking]"

text \<open>
  A queued speech, a stop while its request is in flight, a second queued speech, and
  then both requests answered with audio.
\<close>

definition stopThenSpeak :: "event list" where
  "stopThenSpeak =
     [CallSpeak (js ''first speech''), CallStopSpeaking, CallSpeak (js ''second speech''),
      FetchResolved 0 True, JsonResolved 0 AudioContent,
      FetchResolved 1 True, JsonResolved 1 AudioContent]"

section \<open>The engine never returns an empty puzzle\<close>

lemma js_Nil: "js [] = []"
  by (simp add: js_def)

lemma js_Cons: "js (c # cs) = of_char c # js cs"
  by (simp add: js_def)

lemma js_length: "length (js t) = length t"
  by (simp add: js_def)

lemma js_empty: "(js t = []) = (t = [])"
  by (simp add: js_def)


lemma fallbacks_nonempty:
  "FALLBACK_1 \<noteq> []" "FALLBACK_2 \<noteq> []" "FALLBACK_3 \<noteq> []" "FALLBACK_4 \<noteq> []"
  "FALLBACK_5 \<noteq> []" "FALLBACK_GENERIC \<noteq> []"
  by (simp_all add: FALLBACK_1_def FALLBACK_2_def FALLBACK_3_def FALLBACK_4_def
        FALLBACK_5_def FALLBACK_GENERIC_def js_empty)

lemma fallbacks_distinct:
  "distinct [FALLBACK_1, FALLBACK_2, FALLBACK_3, FALLBACK_4, FALLBACK_5, FALLBACK_GENERIC]"
  by (simp add: FALLBACK_1_def FALLBACK_2_def FALLBACK_3_def FALLBACK_4_def
        FALLBACK_5_def FALLBACK_GENERIC_def js_Cons js_Nil)

lemma getFallbackPuzzle_nonempty: "getFallbackPuzzle st \<noteq> []"
  by (simp add: getFallbackPuzzle_def fallbacks_nonempty)

lemma getFallbackPuzzle_table:
  "getFallbackPuzzle st =
     (if stage_id st \<in> {1..5}
      then [FALLBACK_1, FALLBACK_2, FALLBACK_3, FALLBACK_4, FALLBACK_5] ! nat (stage_id st - 1)
      else FALLBACK_GENERIC)"
proof (cases "stage_id st \<in> {1..5}")
  case True
  then have "stage_id st = 1 \<or> stage_id st = 2 \<or> stage_id st = 3 \<or> stage_id st = 4 \<or> stage_id st = 5"
    by auto
  then show ?thesis
    by (auto simp: getFallbackPuzzle_def)
next
  case False
  then show ?thesis
    by (auto simp: getFallbackPuzzle_def)
qed

lemma generatePuzzle_nonempty: "fst (generatePuzzle st ienv cloud edge e) \<noteq> []"
  by (auto simp: generatePuzzle_def sendMessage_def Let_def getFallbackPuzzle_nonempty
        split: cloud_outcome.splits edge_outcome.splits prod.splits)

lemma generatePuzzle_all_fail:
  "fst (generatePuzzle st ienv CloudThrows EdgeThrows e) = getFallbackPuzzle st"
  by (simp add: generatePuzzle_def sendMessage_def Let_def)

text \<open>
  C1. Whatever the cloud and the edge model do, \<open>generatePuzzle\<close> returns a text that
  is not empty. When every call fails, the text is the canned puzzle of the stage: for
  the ids 1 to 5 the entry of the table for that id, for any other id the generic text.
  The six texts are pairwise different.
\<close>

theorem generatePuzzle_fallback:
  "fst (generatePuzzle st ienv cloud edge e) \<noteq> []
   \<and> fst (generatePuzzle st ienv CloudThrows EdgeThrows e) = getFallbackPuzzle st
   \<and> getFallbackPuzzle st =
       (if stage_id st \<in> {1..5}
        then [FALLBACK_1, FALLBACK_2, FALLBACK_3, FALLBACK_4, FALLBACK_5] ! nat (stage_id st - 1)
        else FALLBACK_GENERIC)
   \<and> distinct [FALLBACK_1, FALLBACK_2, FALLBACK_3, FALLBACK_4, FALLBACK_5, FALLBACK_GENERIC]"
  using generatePuzzle_nonempty generatePuzzle_all_fail getFallbackPuzzle_table fallbacks_distinct
  by blast

section \<open>The rank\<close>

text \<open>
  C3. The rank follows the bands, each band taken only when the ones before it do not
  apply: S for no hint and less than 300 s; A for at most 2 hints and less than 600 s;
  B for at most 5 hints and less than 900 s; C for less than 1200 s; D otherwise. The
  five examples of the specification come out as S, A, B, C and D.
\<close>

theorem calculateRank_bands:
  "(calculateRank g = ''S'') = (totalHintsUsed g = 0 \<and> elapsedSeconds g < 300)
   \<and> (calculateRank g = ''A'') =
       (\<not> (totalHintsUsed g = 0 \<and> elapsedSeconds g < 300)
        \<and> totalHintsUsed g \<le> 2 \<and> elapsedSeconds g < 600)
   \<and> (calculateRank g = ''B'') =
       (\<not> (totalHintsUsed g \<le> 2 \<and> elapsedSeconds g < 600)
        \<and> totalHintsUsed g \<le> 5 \<and> elapsedSeconds g < 900)
   \<and> (calculateRank g = ''C'') =
       (\<not> (totalHintsUsed g \<le> 5 \<and> elapsedSeconds g < 900) \<and> elapsedSeconds g < 1200)
   \<and> (calculateRank g = ''D'') = (\<not> elapsedSeconds g < 1200)
   \<and> calculateRank (g\<lparr>elapsedSeconds := 250, totalHintsUsed := 0\<rparr>) = ''S''
   \<and> calculateRank (g\<lparr>elapsedSeconds := 500, totalHintsUsed := 2\<rparr>) = ''A''
   \<and> calculateRank (g\<lparr>elapsedSeconds := 700, totalHintsUsed := 5\<rparr>) = ''B''
   \<and> calculateRank (g\<lparr>elapsedSeconds := 1000, totalHintsUsed := 0\<rparr>) = ''C''
   \<and> calculateRank (g\<lparr>elapsedSeconds := 1300, totalHintsUsed := 0\<rparr>) = ''D''"
  by (auto simp: calculateRank_def Let_def)

section \<open>Evaluating an answer\<close>

lemma cloudAttempts_done: "cloudAttempts (Suc (Suc n)) p cloud e = (UNSTABLE, e, [])"
  by (simp add: cloudAttempts.simps)

lemma cloudAttempts_second:
  "cloudAttempts (Suc 0) p cloud e =
     (case fst (sendMessage e p (cloud 1)) of
        CloudThrows \<Rightarrow> (UNSTABLE, e, snd (sendMessage e p (cloud 1)))
      | CloudResolves r \<Rightarrow>
          (let t = extractResponseText r
           in if t \<noteq> [] \<and> length t > 5
              then (t, updateDifficultyStats t e, snd (sendMessage e p (cloud 1)))
              else (UNSTABLE, e, snd (sendMessage e p (cloud 1)))))"
  by (subst cloudAttempts.simps)
     (simp add: cloudAttempts_done Let_def split: prod.splits cloud_outcome.splits)

lemma cloudAttempts_first:
  "cloudAttempts 0 p cloud e =
     (case fst (sendMessage e p (cloud 0)) of
        CloudThrows \<Rightarrow>
          (case cloudAttempts (Suc 0) p cloud e of
             (res, e', fx') \<Rightarrow> (res, e', snd (sendMessage e p (cloud 0)) @ [Sleep 500] @ fx'))
      | CloudResolves r \<Rightarrow>
          (let t = extractResponseText r
           in if t \<noteq> [] \<and> length t > 5
              then (t, updateDifficultyStats t e, snd (sendMessage e p (cloud 0)))
              else (case cloudAttempts (Suc 0) p cloud e of
                      (res, e', fx') \<Rightarrow> (res, e', snd (sendMessage e p (cloud 0)) @ fx'))))"
  by (subst cloudAttempts.simps) (simp add: Let_def split: prod.splits cloud_outcome.splits)

lemma cloudAttempts_with_session:
  assumes "chatSession e"
  shows "cloudAttempts 0 p cloud e =
     (case classifyAttempt (cloud 0) of
        Verdict t \<Rightarrow> (t, updateDifficultyStats t e, [CloudSend p])
      | Threw \<Rightarrow>
          (case classifyAttempt (cloud 1) of
             Verdict t \<Rightarrow> (t, updateDifficultyStats t e, [CloudSend p, Sleep 500, CloudSend p])
           | _ \<Rightarrow> (UNSTABLE, e, [CloudSend p, Sleep 500, CloudSend p]))
      | TooShort \<Rightarrow>
          (case classifyAttempt (cloud 1) of
             Verdict t \<Rightarrow> (t, updateDifficultyStats t e, [CloudSend p, CloudSend p])
           | _ \<Rightarrow> (UNSTABLE, e, [CloudSend p, CloudSend p])))"
  using assms
  by (simp add: cloudAttempts_first cloudAttempts_second sendMessage_def classifyAttempt_def
        Let_def split: cloud_outcome.splits)

lemma cloudAttempts_without_session:
  assumes "\<not> chatSession e"
  shows "cloudAttempts 0 p cloud e = (UNSTABLE, e, [Sleep 500])"
  using assms
  by (simp add: cloudAttempts_first cloudAttempts_second sendMessage_def)

lemma updateDifficultyStats_counters:
  "consecutiveCorrect (updateDifficultyStats t e) =
     (if includes_js t CORRECT_TAG then consecutiveCorrect e + 1 else 0)"
  "consecutiveWrong (updateDifficultyStats t e) =
     (if includes_js t CORRECT_TAG then 0 else consecutiveWrong e + 1)"
  by (simp_all add: updateDifficultyStats_def)

lemma fixed_texts_tagged_wrong:
  "\<not> includes_js CONNECTION_LOST CORRECT_TAG" "\<not> includes_js UNSTABLE CORRECT_TAG"
  "startsWith CONNECTION_LOST WRONG_TAG" "startsWith UNSTABLE WRONG_TAG"
  by (simp_all add: CONNECTION_LOST_def UNSTABLE_def CORRECT_TAG_def WRONG_TAG_def
        js_Cons js_Nil)

lemma cloudAttempts_cases:
  "(\<exists>t fx. cloudAttempts 0 p cloud e = (t, updateDifficultyStats t e, fx))
   \<or> (\<exists>fx. cloudAttempts 0 p cloud e = (UNSTABLE, e, fx))"
  by (cases "chatSession e")
     (auto simp: cloudAttempts_with_session cloudAttempts_without_session
        split: attempt.splits)

lemma evaluateAnswer_cases:
  "(\<exists>t fx. evaluateAnswer answer env e = (t, updateDifficultyStats t e, fx))
   \<or> (\<exists>fx. evaluateAnswer answer env e = (CONNECTION_LOST, e, fx))
   \<or> (\<exists>fx. evaluateAnswer answer env e = (UNSTABLE, e, fx))"
  using cloudAttempts_cases [of "CloudEvaluationPrompt answer" "cloudVerdict env" e]
  by (auto simp: evaluateAnswer_def Let_def split: edge_outcome.splits)

lemma evaluateAnswer_exclusive:
  "countersExclusive e \<Longrightarrow> countersExclusive (fst (snd (evaluateAnswer answer env e)))"
  using evaluateAnswer_cases [of answer env e]
  by (auto simp: countersExclusive_def updateDifficultyStats_counters)

lemma evaluateAll_exclusive:
  "countersExclusive e \<Longrightarrow> countersExclusive (evaluateAll calls e)"
  by (induction calls arbitrary: e) (auto simp: evaluateAnswer_exclusive)

lemma init_exclusive: "countersExclusive (init ienv e)"
  by (simp add: init_def countersExclusive_def Let_def split: option.splits)

lemma evaluateAnswer_counters:
  "(includes_js (fst (evaluateAnswer answer env e)) CORRECT_TAG \<longrightarrow>
      consecutiveCorrect (fst (snd (evaluateAnswer answer env e))) = consecutiveCorrect e + 1
      \<and> consecutiveWrong (fst (snd (evaluateAnswer answer env e))) = 0)
   \<and> (\<not> includes_js (fst (evaluateAnswer answer env e)) CORRECT_TAG \<longrightarrow>
        (consecutiveWrong (fst (snd (evaluateAnswer answer env e))) = consecutiveWrong e + 1
         \<and> consecutiveCorrect (fst (snd (evaluateAnswer answer env e))) = 0)
        \<or> ((fst (evaluateAnswer answer env e) = CONNECTION_LOST
             \<or> fst (evaluateAnswer answer env e) = UNSTABLE)
            \<and> fst (snd (evaluateAnswer answer env e)) = e))"
  using evaluateAnswer_cases [of answer env e]
  by (auto simp: updateDifficultyStats_counters fixed_texts_tagged_wrong)

lemma demoEngine_eq:
  "demoEngine = \<lparr>cloudModel = True, hybridMode = True, chatSession = True,
     localAiSession = False, consecutiveWrong = 0, consecutiveCorrect = 0\<rparr>"
  by (simp add: demoEngine_def demoBrowser_def init_def newEngine_def Let_def)

lemma edgeEngine_eq:
  "edgeEngine = \<lparr>cloudModel = False, hybridMode = True, chatSession = False,
     localAiSession = True, consecutiveWrong = 0, consecutiveCorrect = 0\<rparr>"
  by (simp add: edgeEngine_def init_def newEngine_def Let_def)

lemma correctResponse_text:
  "extractResponseText correctResponse = js ''[CORRECT] Access granted.''"
  by (simp add: correctResponse_def extractResponseText_def hasText_def textOf_def js_empty)

lemma correct_text_includes: "includes_js (js ''[CORRECT] Access granted.'') CORRECT_TAG"
  by (simp add: CORRECT_TAG_def js_Cons js_Nil)

lemma classify_demo:
  "classifyAttempt CloudThrows = Threw"
  "classifyAttempt (CloudResolves emptyResponse) = TooShort"
  "classifyAttempt (CloudResolves correctResponse) = Verdict (js ''[CORRECT] Access granted.'')"
  by (simp_all add: classifyAttempt_def correctResponse_text js_empty js_length)
     (simp add: extractResponseText_def emptyResponse_def)

lemma demo_envs:
  "edgeVerdict allFail = EdgeThrows" "cloudVerdict allFail n = CloudThrows"
  "edgeVerdict shortThenFail = EdgeThrows" "cloudVerdict shortThenFail 0 = CloudResolves emptyResponse"
  "cloudVerdict shortThenFail (Suc n) = CloudThrows"
  "edgeVerdict cloudCorrect = EdgeThrows" "cloudVerdict cloudCorrect n = CloudResolves correctResponse"
  "edgeVerdict edgeEmpty = EdgeReturns []"
  by (simp_all add: allFail_def shortThenFail_def cloudCorrect_def edgeEmpty_def)

lemma evaluate_cloudCorrect:
  "chatSession e \<Longrightarrow> \<not> localAiSession e \<Longrightarrow>
     evaluateAnswer answer cloudCorrect e =
       (js ''[CORRECT] Access granted.'',
        e\<lparr>consecutiveCorrect := consecutiveCorrect e + 1, consecutiveWrong := 0\<rparr>,
        [CloudSend (CloudEvaluationPrompt answer)])"
  by (simp add: evaluateAnswer_def cloudAttempts_with_session demo_envs classify_demo
        updateDifficultyStats_def correct_text_includes)

lemma evaluate_allFail:
  "evaluateAnswer answer allFail demoEngine =
     (UNSTABLE, demoEngine,
      [CloudSend (CloudEvaluationPrompt answer), Sleep 500,
       CloudSend (CloudEvaluationPrompt answer)])"
  by (simp add: evaluateAnswer_def cloudAttempts_with_session demo_envs classify_demo
        demoEngine_eq)

lemma evaluate_shortThenFail:
  "evaluateAnswer answer shortThenFail demoEngine =
     (UNSTABLE, demoEngine,
      [CloudSend (CloudEvaluationPrompt answer), CloudSend (CloudEvaluationPrompt answer)])"
  by (simp add: evaluateAnswer_def cloudAttempts_with_session demo_envs classify_demo
        demoEngine_eq)

text \<open>
  C2, as amended. After \<open>init\<close> and any sequence of calls of \<open>evaluateAnswer\<close> the two
  counters are not both non-zero, before and after one more call. When the text that
  call returns contains the correct-marker, \<open>consecutiveCorrect\<close> has grown by one and
  \<open>consecutiveWrong\<close> is zero. When it does not, either \<open>consecutiveWrong\<close> has grown by
  one and \<open>consecutiveCorrect\<close> is zero, or the text is one of the two fixed fallback
  texts and the engine is as it was.
\<close>

theorem counters_after_evaluations:
  "countersExclusive (evaluateAll calls (init ienv e0))
   \<and> countersExclusive
        (fst (snd (evaluateAnswer answer env (evaluateAll calls (init ienv e0)))))
   \<and> (includes_js (fst (evaluateAnswer answer env e)) CORRECT_TAG \<longrightarrow>
        consecutiveCorrect (fst (snd (evaluateAnswer answer env e))) = consecutiveCorrect e + 1
        \<and> consecutiveWrong (fst (snd (evaluateAnswer answer env e))) = 0)
   \<and> (\<not> includes_js (fst (evaluateAnswer answer env e)) CORRECT_TAG \<longrightarrow>
        (consecutiveWrong (fst (snd (evaluateAnswer answer env e))) = consecutiveWrong e + 1
         \<and> consecutiveCorrect (fst (snd (evaluateAnswer answer env e))) = 0)
        \<or> ((fst (evaluateAnswer answer env e) = CONNECTION_LOST
             \<or> fst (evaluateAnswer answer env e) = UNSTABLE)
            \<and> fst (snd (evaluateAnswer answer env e)) = e))"
  using evaluateAll_exclusive [OF init_exclusive] evaluateAnswer_exclusive
    evaluateAnswer_counters
  by blast

theorem counters_after_evaluations_witness:
  "includes_js (fst (evaluateAnswer (js ''tower'') cloudCorrect demoEngine)) CORRECT_TAG
   \<and> consecutiveCorrect (fst (snd (evaluateAnswer (js ''tower'') cloudCorrect demoEngine))) = 1
   \<and> consecutiveWrong (fst (snd (evaluateAnswer (js ''tower'') cloudCorrect demoEngine))) = 0
   \<and> \<not> includes_js (fst (evaluateAnswer (js ''tower'') allFail demoEngine)) CORRECT_TAG
   \<and> fst (evaluateAnswer (js ''tower'') allFail demoEngine) = UNSTABLE
   \<and> fst (snd (evaluateAnswer (js ''tower'') allFail demoEngine)) = demoEngine"
proof -
  have c: "includes_js (fst (evaluateAnswer (js ''tower'') cloudCorrect demoEngine)) CORRECT_TAG"
    by (simp add: evaluate_cloudCorrect demoEngine_eq correct_text_includes)
  have w: "\<not> includes_js (fst (evaluateAnswer (js ''tower'') allFail demoEngine)) CORRECT_TAG"
    by (simp add: evaluate_allFail fixed_texts_tagged_wrong)
  have z: "consecutiveCorrect demoEngine = 0"
    by (simp add: demoEngine_eq)
  from counters_after_evaluations [where answer = "js ''tower''" and env = cloudCorrect
      and e = demoEngine] c z
  have "consecutiveCorrect (fst (snd (evaluateAnswer (js ''tower'') cloudCorrect demoEngine))) = 1
        \<and> consecutiveWrong (fst (snd (evaluateAnswer (js ''tower'') cloudCorrect demoEngine))) = 0"
    by simp
  with c w show ?thesis
    by (simp add: evaluate_allFail)
qed

theorem wrong_fallback_not_counted_counterexample:
  "startsWith (fst (evaluateAnswer (js ''tower'') allFail demoEngine)) WRONG_TAG
   \<and> \<not> includes_js (fst (evaluateAnswer (js ''tower'') allFail demoEngine)) CORRECT_TAG
   \<and> \<not> (consecutiveWrong (fst (snd (evaluateAnswer (js ''tower'') allFail demoEngine)))
          = consecutiveWrong demoEngine + 1
        \<and> consecutiveCorrect (fst (snd (evaluateAnswer (js ''tower'') allFail demoEngine))) = 0)"
  by (simp add: evaluate_allFail fixed_texts_tagged_wrong)

text \<open>
  C5, as amended. With no session at all \<open>evaluateAnswer\<close> returns the fixed
  connection-lost text, which starts with the wrong tag, and calls nothing. With a
  cloud session and no verdict from the edge model, the cloud is asked at most twice:
  a verdict of the first attempt is returned at once; after a first attempt that threw
  the second comes after a pause of 500 ms; after a first attempt that gave a text too
  short it comes with no pause; and when the second attempt gives no verdict either, the
  result is the fixed text tagged wrong, with the engine unchanged.
\<close>

theorem evaluateAnswer_paths:
  "(\<not> chatSession e \<and> \<not> localAiSession e \<longrightarrow>
      evaluateAnswer answer env e = (CONNECTION_LOST, e, []))
   \<and> startsWith CONNECTION_LOST WRONG_TAG \<and> startsWith UNSTABLE WRONG_TAG
   \<and> (chatSession e \<and> (localAiSession e \<longrightarrow> edgeVerdict env = EdgeThrows) \<longrightarrow>
        evaluateAnswer answer env e =
          (let pre = (if localAiSession e then [EdgePrompt (EdgeEvaluationPrompt answer)] else []);
               send = CloudSend (CloudEvaluationPrompt answer)
           in case classifyAttempt (cloudVerdict env 0) of
                Verdict t \<Rightarrow> (t, updateDifficultyStats t e, pre @ [send])
              | Threw \<Rightarrow>
                  (case classifyAttempt (cloudVerdict env 1) of
                     Verdict t \<Rightarrow> (t, updateDifficultyStats t e, pre @ [send, Sleep 500, send])
                   | _ \<Rightarrow> (UNSTABLE, e, pre @ [send, Sleep 500, send]))
              | TooShort \<Rightarrow>
                  (case classifyAttempt (cloudVerdict env 1) of
                     Verdict t \<Rightarrow> (t, updateDifficultyStats t e, pre @ [send, send])
                   | _ \<Rightarrow> (UNSTABLE, e, pre @ [send, send]))))"
  by (auto simp: evaluateAnswer_def Let_def cloudAttempts_with_session fixed_texts_tagged_wrong
        split: attempt.splits)

theorem evaluateAnswer_paths_witness:
  "chatSession demoEngine \<and> \<not> localAiSession demoEngine
   \<and> evaluateAnswer (js ''tower'') allFail demoEngine =
       (UNSTABLE, demoEngine,
        [CloudSend (CloudEvaluationPrompt (js ''tower'')), Sleep 500,
         CloudSend (CloudEvaluationPrompt (js ''tower''))])
   \<and> \<not> chatSession (newEngine False True) \<and> \<not> localAiSession (newEngine False True)
   \<and> evaluateAnswer (js ''tower'') allFail (newEngine False True) =
       (CONNECTION_LOST, newEngine False True, [])"
proof -
  have s: "chatSession demoEngine" "\<not> localAiSession demoEngine"
    by (simp_all add: demoEngine_eq)
  have n: "\<not> chatSession (newEngine False True)" "\<not> localAiSession (newEngine False True)"
    by (simp_all add: newEngine_def)
  from evaluateAnswer_paths [of demoEngine "js ''tower''" allFail] s
  have a: "evaluateAnswer (js ''tower'') allFail demoEngine =
       (UNSTABLE, demoEngine,
        [CloudSend (CloudEvaluationPrompt (js ''tower'')), Sleep 500,
         CloudSend (CloudEvaluationPrompt (js ''tower''))])"
    by (simp add: demo_envs classify_demo Let_def)
  from evaluateAnswer_paths [of "newEngine False True" "js ''tower''" allFail] n
  have b: "evaluateAnswer (js ''tower'') allFail (newEngine False True) =
       (CONNECTION_LOST, newEngine False True, [])"
    by simp
  from s n a b show ?thesis by simp
qed

theorem short_attempt_no_backoff_counterexample:
  "classifyAttempt (cloudVerdict shortThenFail 0) = TooShort
   \<and> snd (snd (evaluateAnswer (js ''tower'') shortThenFail demoEngine)) =
       [CloudSend (CloudEvaluationPrompt (js ''tower'')),
        CloudSend (CloudEvaluationPrompt (js ''tower''))]
   \<and> Sleep 500 \<notin> set (snd (snd (evaluateAnswer (js ''tower'') shortThenFail demoEngine)))"
  by (simp add: evaluate_shortThenFail demo_envs classify_demo)

text \<open>
  C10. When \<open>evaluateAnswer\<close> has a session, the edge model (if there is one) throws
  and neither cloud attempt gives a verdict, the result is the fixed text for an
  unstable connection and the engine, with both counters, is as it was.
\<close>

theorem unstable_fallback_keeps_counters:
  assumes "chatSession e \<or> localAiSession e"
    and "localAiSession e \<Longrightarrow> edgeVerdict env = EdgeThrows"
    and "chatSession e \<Longrightarrow> noVerdict (cloudVerdict env 0) \<and> noVerdict (cloudVerdict env 1)"
  shows "fst (evaluateAnswer answer env e) = UNSTABLE
         \<and> fst (snd (evaluateAnswer answer env e)) = e
         \<and> consecutiveCorrect (fst (snd (evaluateAnswer answer env e))) = consecutiveCorrect e
         \<and> consecutiveWrong (fst (snd (evaluateAnswer answer env e))) = consecutiveWrong e"
proof (cases "chatSession e")
  case True
  with assms show ?thesis
    by (auto simp: evaluateAnswer_def Let_def cloudAttempts_with_session noVerdict_def
          split: attempt.splits)
next
  case False
  with assms show ?thesis
    by (auto simp: evaluateAnswer_def Let_def cloudAttempts_without_session)
qed

theorem unstable_fallback_keeps_counters_witness:
  "(chatSession demoEngine \<or> localAiSession demoEngine)
   \<and> \<not> localAiSession demoEngine
   \<and> noVerdict (cloudVerdict shortThenFail 0) \<and> noVerdict (cloudVerdict shortThenFail 1)
   \<and> fst (evaluateAnswer (js ''tower'') shortThenFail demoEngine) = UNSTABLE
   \<and> consecutiveCorrect (fst (snd (evaluateAnswer (js ''tower'') shortThenFail demoEngine)))
       = consecutiveCorrect demoEngine
   \<and> consecutiveWrong (fst (snd (evaluateAnswer (js ''tower'') shortThenFail demoEngine)))
       = consecutiveWrong demoEngine"
proof -
  have s: "chatSession demoEngine \<or> localAiSession demoEngine" "\<not> localAiSession demoEngine"
    by (simp_all add: demoEngine_eq)
  have v: "noVerdict (cloudVerdict shortThenFail 0) \<and> noVerdict (cloudVerdict shortThenFail 1)"
    by (simp add: noVerdict_def demo_envs classify_demo)
  from unstable_fallback_keeps_counters [of demoEngine shortThenFail "js ''tower''"] s v
  show ?thesis by simp
qed

text \<open>
  C6, at inputs where it fails. The cloud call succeeds with a response that has no
  text: \<open>requestHint\<close>, \<open>generateNarration\<close> and \<open>generateEndingStory\<close> return the
  empty string. The edge model answers with the empty string: \<open>evaluateAnswer\<close>
  returns it.
\<close>

theorem empty_output_is_returned:
  "fst (requestHint 1 (CloudResolves emptyResponse) EdgeThrows demoEngine) = []
   \<and> fst (generateNarration demoStage1 demoStage2 noStats demoBrowser (CloudResolves emptyResponse)
           demoEngine) = []
   \<and> fst (generateEndingStory (js ''02:00'') 3 2 demoBrowser (CloudResolves emptyResponse) demoEngine)
       = []
   \<and> fst (evaluateAnswer (js ''tower'') edgeEmpty edgeEngine) = []"
  by (simp add: requestHint_def generateNarration_def generateEndingStory_def
        evaluateAnswer_def sendMessage_def extractResponseText_def emptyResponse_def
        demoEngine_eq edgeEngine_eq demo_envs Let_def)

section \<open>The answer handler\<close>









section \<open>The narration between two stages\<close>

text \<open>
  C8, where it fails. When \<open>advanceStage\<close> goes on to a next stage, what it does,
  the prompts the engine sends included, is the same for every hint count and every
  elapsed time in the game state; and so is the engine it leaves.
\<close>

theorem narration_ignores_player_stats:
  assumes "currentStage g + 1 < length stages"
  shows "snd (advanceStage stages w (g\<lparr>totalHintsUsed := h, elapsedSeconds := t\<rparr>, e))
           = snd (advanceStage stages w (g, e))
         \<and> snd (fst (advanceStage stages w (g\<lparr>totalHintsUsed := h, elapsedSeconds := t\<rparr>, e)))
           = snd (fst (advanceStage stages w (g, e)))"
  using assms
  by (auto simp: advanceStage_def generateNarration_export_def Let_def loadStage_def
        split: prod.splits)

lemma advanceStage_sends_narration:
  assumes "currentStage g + 1 < length stages" and "chatSession e"
  shows "EngineDoes (CloudSend (narrationPrompt (stages ! currentStage g)
            (stages ! (currentStage g + 1)) noStats e))
         \<in> set (snd (advanceStage stages w (g, e)))"
  using assms
  by (auto simp: advanceStage_def generateNarration_export_def generateNarration_def
        sendMessage_def Let_def split: prod.splits cloud_outcome.splits)

theorem narration_ignores_player_stats_witness:
  "currentStage demoGame + 1 < length [demoStage1, demoStage2]
   \<and> totalHintsUsed demoGame = 3 \<and> elapsedSeconds demoGame = 120
   \<and> snd (advanceStage [demoStage1, demoStage2] demoWorld
            (demoGame\<lparr>totalHintsUsed := 0, elapsedSeconds := 0\<rparr>, demoEngine))
       = snd (advanceStage [demoStage1, demoStage2] demoWorld (demoGame, demoEngine))
   \<and> EngineDoes (CloudSend (NarrationPrompt (js ''Tower'') (js ''Ginza'') Steady 0))
       \<in> set (snd (advanceStage [demoStage1, demoStage2] demoWorld (demoGame, demoEngine)))"
proof -
  have n: "currentStage demoGame + 1 < length [demoStage1, demoStage2]"
    and h: "totalHintsUsed demoGame = 3" "elapsedSeconds demoGame = 120"
    and z: "currentStage demoGame = 0"
    by (simp_all add: demoGame_def)
  have c: "chatSession demoEngine"
    by (simp add: demoEngine_eq)
  have p: "narrationPrompt demoStage1 demoStage2 noStats demoEngine
             = NarrationPrompt (js ''Tower'') (js ''Ginza'') Steady 0"
    by (simp add: narrationPrompt_def hintsOrZero_def noStats_def demoEngine_eq
          demoStage1_def demoStage2_def)
  have "EngineDoes (CloudSend (NarrationPrompt (js ''Tower'') (js ''Ginza'') Steady 0))
          \<in> set (snd (advanceStage [demoStage1, demoStage2] demoWorld (demoGame, demoEngine)))"
    using advanceStage_sends_narration [OF n c, of demoWorld] z p by simp
  with narration_ignores_player_stats [OF n, of demoWorld 0 0 demoEngine] n h
  show ?thesis by simp
qed

section \<open>The speech module: a failure never blocks the caller\<close>

lemma promisesKept_refl: "promisesKept s s"
  by (simp add: promisesKept_def)

lemma promisesKept_trans: "promisesKept s s' \<Longrightarrow> promisesKept s' s'' \<Longrightarrow> promisesKept s s''"
  by (auto simp: promisesKept_def)

lemma taskKept_refl: "taskKept i s s"
  by (simp add: taskKept_def promisesKept_refl)

lemma taskKept_trans: "taskKept i s s' \<Longrightarrow> taskKept i s' s'' \<Longrightarrow> taskKept i s s''"
  unfolding taskKept_def using promisesKept_trans by (auto; fastforce)

lemma taskKept_promises: "taskKept i s s' \<Longrightarrow> promisesKept s s'"
  by (simp add: taskKept_def)

lemma resolved_kept: "resolved p s \<Longrightarrow> promisesKept s s' \<Longrightarrow> resolved p s'"
  by (auto simp: resolved_def promisesKept_def)

lemma pendingFor_kept: "pendingFor i p s \<Longrightarrow> taskKept i s s' \<Longrightarrow> pendingFor i p s'"
  by (auto simp: pendingFor_def taskKept_def promisesKept_def split: phase.splits)

lemma nth_update_audio:
  "a < length xs \<Longrightarrow> audioTask (xs[b := (xs ! b)\<lparr>audioStatus := st\<rparr>] ! a) = audioTask (xs ! a)"
  by (cases "a = b") simp_all

lemma nth_update_True: "q < length xs \<Longrightarrow> xs ! q \<Longrightarrow> xs[p := True] ! q"
  by (cases "q = p") simp_all

lemma kept_resolvePromise: "taskKept i s (resolvePromise p s)"
  by (simp add: taskKept_def promisesKept_def resolvePromise_def nth_update_True)

lemma kept_synthesizeAndPlay: "taskKept i s (synthesizeAndPlay t c s)"
  by (auto simp: taskKept_def promisesKept_def synthesizeAndPlay_def nth_append)

lemma kept_fields:
  "taskKept i s (s\<lparr>audioQueue := q\<rparr>)" "taskKept i s (s\<lparr>isPlaying := b\<rparr>)"
  "taskKept i s (s\<lparr>indicatorSpeaking := b\<rparr>)" "taskKept i s (s\<lparr>currentSpeakResolve := r\<rparr>)"
  "taskKept i s (s\<lparr>currentAudio := ca\<rparr>)" "taskKept i s (s\<lparr>synthesisAborted := b\<rparr>)"
  "taskKept i s (s\<lparr>ttsEnabled := b\<rparr>)"
  by (simp_all add: taskKept_def promisesKept_def)

lemma kept_queueLoop: "taskKept i s (queueLoop s)"
  unfolding queueLoop_def
  by (auto split: list.splits intro: kept_fields taskKept_trans [OF kept_fields(1) kept_synthesizeAndPlay])

lemma kept_processQueue: "taskKept i s (processQueue s)"
  unfolding processQueue_def
  by (auto intro: taskKept_refl taskKept_trans [OF kept_fields(2) kept_queueLoop])

lemma kept_stopSpeaking: "taskKept i s (stopSpeaking s)"
  by (auto simp: taskKept_def promisesKept_def stopSpeaking_def Let_def nth_update_audio split: option.splits)

lemma kept_setAudioStatus: "taskKept i s (setAudioStatus a st s)"
  by (auto simp: taskKept_def promisesKept_def setAudioStatus_def nth_update_audio)

lemma kept_speak: "taskKept i s (speak t s)"
proof -
  have "taskKept i s (s\<lparr>synthesisAborted := False, audioQueue := audioQueue s @ [clean t]\<rparr>)"
    by (simp add: taskKept_def promisesKept_def)
  then show ?thesis
    unfolding speak_def Let_def
    by (auto intro: taskKept_refl taskKept_trans [OF _ kept_processQueue])
qed

lemma kept_speakAndWait: "taskKept i s (speakAndWait t s)"
proof -
  let ?s = "s\<lparr>promises := promises s @ [False]\<rparr>"
  have a: "taskKept i s ?s"
    by (auto simp: taskKept_def promisesKept_def nth_append)
  have b: "taskKept i ?s (resolvePromise (length (promises s)) ?s)"
    by (rule kept_resolvePromise)
  have c: "taskKept i ?s (synthesizeAndPlay (clean t) (FromSpeakAndWait (length (promises s)))
                (stopSpeaking (?s\<lparr>currentSpeakResolve := Some (length (promises s))\<rparr>)))"
    by (rule taskKept_trans [OF kept_fields(4) taskKept_trans [OF kept_stopSpeaking kept_synthesizeAndPlay]])
  show ?thesis
    unfolding speakAndWait_def Let_def
    using taskKept_trans [OF a b] taskKept_trans [OF a c] by auto
qed

lemma kept_skipAndProceed: "taskKept i s (skipAndProceed s)"
  unfolding skipAndProceed_def Let_def
  by (auto split: option.splits
        intro: kept_stopSpeaking
               taskKept_trans [OF kept_stopSpeaking taskKept_trans [OF kept_fields(4) kept_resolvePromise]])

lemma kept_toggleTTS: "taskKept i s (toggleTTS s)"
  unfolding toggleTTS_def Let_def
  by (auto intro: kept_fields taskKept_trans [OF kept_fields(7) kept_stopSpeaking])

lemma kept_settle_other: "j \<noteq> i \<Longrightarrow> taskKept i s (settle j s)"
proof -
  assume ji: "j \<noteq> i"
  let ?s = "s\<lparr>tasks := (tasks s)[j := (tasks s ! j)\<lparr>taskPhase := Settled\<rparr>]\<rparr>"
  have a: "taskKept i s ?s"
    using ji by (auto simp: taskKept_def promisesKept_def)
  show ?thesis
    unfolding settle_def Let_def
    by (auto split: caller.splits
          intro: taskKept_refl taskKept_trans [OF a kept_queueLoop]
                 taskKept_trans [OF a taskKept_trans [OF kept_fields(4) kept_resolvePromise]])
qed

lemma promises_settle: "promisesKept s (settle j s)"
proof -
  let ?s = "s\<lparr>tasks := (tasks s)[j := (tasks s ! j)\<lparr>taskPhase := Settled\<rparr>]\<rparr>"
  have a: "promisesKept s ?s"
    by (simp add: promisesKept_def)
  show ?thesis
    unfolding settle_def Let_def
    by (auto split: caller.splits
          intro: promisesKept_refl
                 promisesKept_trans [OF a taskKept_promises [OF kept_queueLoop]]
                 promisesKept_trans [OF a taskKept_promises [OF taskKept_trans [OF kept_fields(4) kept_resolvePromise]]])
qed

lemma settle_resolves: "pendingFor i p s \<Longrightarrow> resolved p (settle i s)"
  by (auto simp: pendingFor_def resolved_def settle_def resolvePromise_def Let_def)


lemma promises_step: "promisesKept s (step ev s)"
proof (cases ev)
  case (FetchResolved j ok)
  have "promisesKept s (s\<lparr>tasks := (tasks s)[j := (tasks s ! j)\<lparr>taskPhase := AwaitingJson\<rparr>]\<rparr>)"
    by (simp add: promisesKept_def)
  then show ?thesis
    using FetchResolved by (auto intro: promisesKept_refl promises_settle)
next
  case (FetchRejected j)
  then show ?thesis
    by (auto intro: promisesKept_refl
          promisesKept_trans [OF taskKept_promises [OF kept_fields(3)] promises_settle])
next
  case (JsonResolved j body)
  have "promisesKept s (startPlayback j s)"
    by (simp add: promisesKept_def startPlayback_def Let_def)
  then show ?thesis
    using JsonResolved
    by (auto intro: promisesKept_refl promises_settle
          promisesKept_trans [OF taskKept_promises [OF kept_fields(3)] promises_settle])
next
  case (JsonRejected j)
  then show ?thesis
    by (auto intro: promisesKept_refl
          promisesKept_trans [OF taskKept_promises [OF kept_fields(3)] promises_settle])
next
  case (AudioEnded a)
  have "promisesKept s (setAudioStatus a Finished (s\<lparr>indicatorSpeaking := False, currentAudio := None\<rparr>))"
    by (simp add: promisesKept_def setAudioStatus_def)
  then show ?thesis
    using AudioEnded by (auto intro: promisesKept_refl promisesKept_trans [OF _ promises_settle])
next
  case (AudioError a)
  have "promisesKept s (setAudioStatus a Failed (s\<lparr>indicatorSpeaking := False, currentAudio := None\<rparr>))"
    by (simp add: promisesKept_def setAudioStatus_def)
  then show ?thesis
    using AudioError by (auto intro: promisesKept_refl promisesKept_trans [OF _ promises_settle])
next
  case (PlayRejected a)
  have "promisesKept s (setAudioStatus a Failed (s\<lparr>indicatorSpeaking := False\<rparr>))"
    by (simp add: promisesKept_def setAudioStatus_def)
  then show ?thesis
    using PlayRejected by (auto intro: promisesKept_refl promisesKept_trans [OF _ promises_settle])
qed (auto intro: taskKept_promises kept_speak kept_speakAndWait kept_stopSpeaking
       kept_skipAndProceed kept_toggleTTS)

lemma resolved_step: "resolved p s \<Longrightarrow> resolved p (step ev s)"
  by (rule resolved_kept [OF _ promises_step])

lemma resolved_run: "resolved p s \<Longrightarrow> resolved p (run evs s)"
  by (induction evs arbitrary: s) (simp_all add: resolved_step)

lemma settle_after: "pendingFor i p s \<Longrightarrow> taskKept i s s' \<Longrightarrow> resolved p (settle i s')"
  by (rule settle_resolves [OF pendingFor_kept])

lemma settle_any:
  "pendingFor i p s \<Longrightarrow> taskKept i s s' \<Longrightarrow>
     pendingFor i p (settle j s') \<or> resolved p (settle j s')"
proof (cases "j = i")
  case True
  assume "pendingFor i p s" "taskKept i s s'"
  then show ?thesis using True settle_after by simp
next
  case False
  assume "pendingFor i p s" "taskKept i s s'"
  then show ?thesis
    using pendingFor_kept [OF _ taskKept_trans [OF _ kept_settle_other [OF False]]] by blast
qed

lemma pending_step:
  assumes P: "pendingFor i p s"
  shows "pendingFor i p (step ev s) \<or> resolved p (step ev s)"
proof (cases ev)
  case (CallSpeak t)
  then show ?thesis using pendingFor_kept [OF P kept_speak] by simp
next
  case (CallSpeakAndWait t)
  then show ?thesis using pendingFor_kept [OF P kept_speakAndWait] by simp
next
  case CallStopSpeaking
  then show ?thesis using pendingFor_kept [OF P kept_stopSpeaking] by simp
next
  case CallSkipAndProceed
  then show ?thesis using pendingFor_kept [OF P kept_skipAndProceed] by simp
next
  case CallToggleTTS
  then show ?thesis using pendingFor_kept [OF P kept_toggleTTS] by simp
next
  case (FetchResolved j ok)
  have upd: "pendingFor i p (s\<lparr>tasks := (tasks s)[j := (tasks s ! j)\<lparr>taskPhase := AwaitingJson\<rparr>]\<rparr>)"
    using P by (cases "j = i") (auto simp: pendingFor_def split: phase.splits)
  show ?thesis
    using FetchResolved P upd settle_any [OF P taskKept_refl] by auto
next
  case (FetchRejected j)
  then show ?thesis
    using P settle_any [OF P kept_fields(3)] by auto
next
  case (JsonResolved j body)
  have upd: "pendingFor i p (startPlayback j s)"
    using P by (cases "j = i")
      (auto simp: pendingFor_def startPlayback_def Let_def nth_append split: phase.splits)
  show ?thesis
    using JsonResolved P upd settle_any [OF P taskKept_refl] settle_any [OF P kept_fields(3)]
    by auto
next
  case (JsonRejected j)
  then show ?thesis
    using P settle_any [OF P kept_fields(3)] by auto
next
  case (AudioEnded a)
  then show ?thesis
    using P settle_any [OF P taskKept_trans [OF taskKept_trans [OF kept_fields(3) kept_fields(5)] kept_setAudioStatus]]
    by auto
next
  case (AudioError a)
  then show ?thesis
    using P settle_any [OF P taskKept_trans [OF taskKept_trans [OF kept_fields(3) kept_fields(5)] kept_setAudioStatus]]
    by auto
next
  case (PlayRejected a)
  then show ?thesis
    using P settle_any [OF P taskKept_trans [OF kept_fields(3) kept_setAudioStatus]]
    by auto
qed

lemma pending_run: "pendingFor i p s \<Longrightarrow> pendingFor i p (run evs s) \<or> resolved p (run evs s)"
proof (induction evs arbitrary: s)
  case Nil
  then show ?case by simp
next
  case (Cons ev evs)
  from pending_step [OF Cons.prems, of ev] show ?case
  proof
    assume "pendingFor i p (step ev s)"
    then show ?thesis using Cons.IH by simp
  next
    assume "resolved p (step ev s)"
    then show ?thesis using resolved_run by simp
  qed
qed

lemma failure_resolves:
  assumes P: "pendingFor i p s" and ev: "ev \<in> set (failures i (taskPhase (tasks s ! i)))"
  shows "resolved p (step ev s)"
proof (cases "taskPhase (tasks s ! i)")
  case AwaitingFetch
  then show ?thesis
    using ev P settle_after [OF P taskKept_refl] settle_after [OF P kept_fields(3)]
    by (auto simp: inPhase_def pendingFor_def)
next
  case AwaitingJson
  then show ?thesis
    using ev P settle_after [OF P taskKept_refl] settle_after [OF P kept_fields(3)]
    by (auto simp: inPhase_def pendingFor_def)
next
  case (AwaitingPlayback a)
  then show ?thesis
    using ev P
      settle_after [OF P taskKept_trans [OF taskKept_trans [OF kept_fields(3) kept_fields(5)] kept_setAudioStatus]]
      settle_after [OF P taskKept_trans [OF kept_fields(3) kept_setAudioStatus]]
    by (auto simp: pendingFor_def)
next
  case Settled
  then show ?thesis using ev by simp
qed

lemma speakAndWait_starts:
  "resolved (length (promises s)) (speakAndWait t s)
   \<or> pendingFor (length (tasks s)) (length (promises s)) (speakAndWait t s)"
  by (auto simp: speakAndWait_def resolved_def pendingFor_def resolvePromise_def
        synthesizeAndPlay_def stopSpeaking_def Let_def split: option.splits)

lemma clean_plain:
  "clean (js ''first speech'') = js ''first speech''"
  "clean (js ''second speech'') = js ''second speech''"
  by (simp_all add: clean_def trim_def js_Cons js_Nil isWhiteSpace_def isLineTerminator_def
        opensTag_def)

text \<open>
  C9. Take any state, any text and any events after the call of \<open>speakAndWait\<close>.
  Then the promise the call returned is resolved, or its synthesis is still under way
  and every failure of the step it waits for (the request, the body, the element)
  resolves the promise at once, and it stays resolved whatever follows.
\<close>

theorem speakAndWait_failure_resolves:
  "resolved (length (promises s)) (run evs (speakAndWait t s))
   \<or> (pendingFor (length (tasks s)) (length (promises s)) (run evs (speakAndWait t s))
       \<and> (\<forall>ev \<in> set (failures (length (tasks s))
                        (taskPhase (tasks (run evs (speakAndWait t s)) ! length (tasks s)))).
            \<forall>evs'. resolved (length (promises s))
                     (run evs' (step ev (run evs (speakAndWait t s))))))"
proof (cases "resolved (length (promises s)) (run evs (speakAndWait t s))")
  case True
  then show ?thesis by simp
next
  case False
  have "\<not> resolved (length (promises s)) (speakAndWait t s)"
    using False resolved_run by blast
  then have "pendingFor (length (tasks s)) (length (promises s)) (speakAndWait t s)"
    using speakAndWait_starts by blast
  then have P: "pendingFor (length (tasks s)) (length (promises s)) (run evs (speakAndWait t s))"
    using False pending_run by blast
  then show ?thesis
    using failure_resolves resolved_run by blast
qed

theorem speakAndWait_failure_resolves_witness:
  "\<not> resolved 0 (run [FetchResolved 0 True] (speakAndWait (js ''first speech'') (ttsLoaded True)))
   \<and> JsonResolved 0 NoAudioContent
       \<in> set (failures 0 (taskPhase
            (tasks (run [FetchResolved 0 True]
               (speakAndWait (js ''first speech'') (ttsLoaded True))) ! 0)))
   \<and> resolved 0 (run [] (step (JsonResolved 0 NoAudioContent)
        (run [FetchResolved 0 True] (speakAndWait (js ''first speech'') (ttsLoaded True)))))"
proof -
  let ?s = "run [FetchResolved 0 True] (speakAndWait (js ''first speech'') (ttsLoaded True))"
  have s: "?s = (ttsLoaded True)
      \<lparr>currentSpeakResolve := Some 0,
        tasks := [\<lparr>taskText = js ''first speech'', taskCaller = FromSpeakAndWait 0,
                   taskPhase = AwaitingJson\<rparr>],
        promises := [False]\<rparr>"
    by (simp add: speakAndWait_def clean_plain stopSpeaking_def synthesizeAndPlay_def
          ttsLoaded_def inPhase_def Let_def js_length js_empty)
  have n: "\<not> resolved 0 ?s"
    unfolding s by (simp add: resolved_def)
  have m: "JsonResolved 0 NoAudioContent \<in> set (failures 0 (taskPhase (tasks ?s ! 0)))"
    unfolding s by simp
  have l: "length (promises (ttsLoaded True)) = 0" "length (tasks (ttsLoaded True)) = 0"
    by (simp_all add: ttsLoaded_def)
  from speakAndWait_failure_resolves [of "ttsLoaded True" "[FetchResolved 0 True]" "js ''first speech''"]
    n m l
  have "resolved 0 (run [] (step (JsonResolved 0 NoAudioContent) ?s))"
    by (metis)
  with n m show ?thesis by blast
qed

section \<open>The speech module: stopping and speaking again\<close>

text \<open>
  A speech stopped while it plays: the element is paused, and the promise of its
  \<open>speakAndWait\<close> is left unresolved. This is the case in which the answer handler
  stays at its await.
\<close>

lemma stopped_while_playing_unresolved:
  "\<not> resolved 0 (run stoppedWhilePlaying (ttsLoaded True))
   \<and> map audioStatus (audios (run stoppedWhilePlaying (ttsLoaded True))) = [Paused]"
  by (simp add: stoppedWhilePlaying_def clean_plain speakAndWait_def stopSpeaking_def
        synthesizeAndPlay_def ttsLoaded_def inPhase_def startPlayback_def resolved_def
        Let_def js_length js_empty)

text \<open>
  C7, where it fails. A speech is queued and its request is in flight; \<open>stopSpeaking\<close>
  is called and a second speech is queued at once, which clears the abort flag again.
  When the two requests are answered, the first text is played as well as the second,
  and two elements are playing together.
\<close>

theorem stop_then_speak_plays_both:
  "map (\<lambda>a. (audioText a, audioStatus a)) (audios (run stopThenSpeak (ttsLoaded True))) =
     [(js ''first speech'', Playing), (js ''second speech'', Playing)]
   \<and> length (filter (\<lambda>a. audioStatus a = Playing) (audios (run stopThenSpeak (ttsLoaded True)))) = 2"
  by (simp add: stopThenSpeak_def clean_plain speak_def stopSpeaking_def processQueue_def
        queueLoop_def synthesizeAndPlay_def ttsLoaded_def inPhase_def startPlayback_def Let_def
        js_length js_empty)

end
